theory Spec2Isabelle
  imports Complex_Main
begin

section \<open>Fixed-step integrators of MultiStep.py\<close>

text \<open>
  The four static methods of \<^verbatim>\<open>CustomNumericalMethods\<close> are embedded over exact real
  arithmetic, except for the grid size, which is computed as Python computes it, in rounded
  double arithmetic. A state vector is a NumPy array of the fixed length \<^verbatim>\<open>len(x0)\<close>; it is a value
  of a real vector space \<open>'v\<close>, whose \<open>+\<close>, \<open>-\<close> and \<open>*\<^sub>R\<close> are NumPy's elementwise
  operations on arrays of equal length. The derivative function \<open>f\<close> is a total function of
  state and time. \<^verbatim>\<open>scipy.optimize.fsolve\<close> is not code of the repository: it is the parameter
  \<open>fsolve\<close>, a function of the residual and the initial guess that returns the iterate the
  solver ends with (the call passes no \<^verbatim>\<open>full_output\<close>, so nothing else comes back).
\<close>

subsection \<open>Errors, grid size and time grid\<close>

datatype error = ZeroDivisionError | ValueError | IndexError | KeyError

text \<open>Python's \<^verbatim>\<open>int(q)\<close> on a float truncates towards zero.\<close>

definition py_int :: "real \<Rightarrow> int" where
  "py_int q = (if 0 \<le> q then \<lfloor>q\<rfloor> else \<lceil>q\<rceil>)"

text \<open>
  The grid size is the one place where a rounding error moves the result by a whole grid
  point, so the quotient is taken as Python computes it: in IEEE double arithmetic, every
  operand and every result rounded to the nearest double, ties to the even mantissa.
  \<open>double_round\<close> is that rounding: the double nearest to a real of magnitude in
  \<open>[2^e, 2^(e+1))\<close> is the nearest multiple of \<open>2^(e-52)\<close>, with the exponent held at
  \<open>-1022\<close> below the normal range. A quotient beyond the largest double, where
  \<^verbatim>\<open>int\<close> raises OverflowError, is outside the model, and so is a step size that is not
  zero and rounds to zero. All other arithmetic is exact.
\<close>

definition round_even :: "real \<Rightarrow> int" where
  "round_even y =
     (let k = \<lfloor>y\<rfloor>; d = y - of_int k
      in if d < 1 / 2 then k else if 1 / 2 < d then k + 1 else if even k then k else k + 1)"

definition double_round :: "real \<Rightarrow> real" where
  "double_round x =
     (if x = 0 then 0
      else let e = max \<lfloor>log 2 \<bar>x\<bar>\<rfloor> (- 1022);
               u = 2 powr (of_int e - 52)
           in of_int (round_even (x / u)) * u)"

text \<open>
  \<^verbatim>\<open>num_steps = int((tf - t0) / h) + 1\<close> on the doubles that hold \<open>t0\<close>, \<open>tf\<close> and \<open>h\<close>:
  a decimal literal such as \<^verbatim>\<open>0.1\<close> reaches the method as the nearest double.
\<close>

definition num_steps :: "real \<Rightarrow> real \<Rightarrow> real \<Rightarrow> int" where
  "num_steps t0 tf h =
     py_int (double_round (double_round (double_round tf - double_round t0) / double_round h)) + 1"

text \<open>
  \<^verbatim>\<open>np.linspace(start, stop, num)\<close> for \<open>num \<ge> 0\<close> with the default \<^verbatim>\<open>endpoint=True\<close>:
  \<open>num\<close> samples \<open>start + i * step\<close> with \<open>step = (stop - start) / (num - 1)\<close>, the last one
  overwritten by \<open>stop\<close>; a single sample is \<open>start\<close>.
\<close>

definition linspace :: "real \<Rightarrow> real \<Rightarrow> nat \<Rightarrow> real list" where
  "linspace start stop num =
     (if num = 0 then []
      else if num = 1 then [start]
      else (map (\<lambda>i. start + real i * ((stop - start) / real (num - 1))) [0..<num])
             [num - 1 := stop])"

text \<open>
  The state of one integration call: the time grid, the trajectory buffer, and two counters
  that record the effects of the call: \<open>f_evals\<close> counts the evaluations of \<open>f\<close> made by the
  method body itself, \<open>solves\<close> the invocations of \<open>fsolve\<close> made by the method body. Every
  other evaluation of \<open>f\<close> happens inside a residual closure, which only a solver invocation
  can run.
\<close>

record 'v run =
  time_points :: "real list"
  solution :: "'v list"
  f_evals :: nat
  solves :: nat

text \<open>
  The common prefix of the four methods:
  \<^verbatim>\<open>
  num_steps = int((tf - t0) / h) + 1
  time_points = np.linspace(t0, tf, num_steps)
  solution = np.zeros((num_steps, len(x0)))
  solution[0] = x0
  \<close>
  Division by \<open>h = 0\<close> raises, \<^verbatim>\<open>linspace\<close> raises ValueError on a negative count, and
  \<^verbatim>\<open>solution[0]\<close> raises IndexError on an empty buffer.
\<close>

definition init_run :: "'v::real_vector \<Rightarrow> real \<Rightarrow> real \<Rightarrow> real \<Rightarrow> error + 'v run" where
  "init_run x0 t0 tf h =
     (if h = 0 then Inl ZeroDivisionError
      else let n = num_steps t0 tf h in
        if n < 0 then Inl ValueError
        else if n = 0 then Inl IndexError
        else Inr \<lparr>time_points = linspace t0 tf (nat n),
                  solution = (replicate (nat n) 0)[0 := x0],
                  f_evals = 0, solves = 0\<rparr>)"

subsection \<open>adams_bashforth_2\<close>

text \<open>The body of \<^verbatim>\<open>for i in range(2, num_steps)\<close>.\<close>

definition ab2_step :: "('v::real_vector \<Rightarrow> real \<Rightarrow> 'v) \<Rightarrow> real \<Rightarrow> nat \<Rightarrow> 'v run \<Rightarrow> 'v run" where
  "ab2_step f h i st =
     (let sol = solution st; ts = time_points st;
          k1 = f (sol ! (i - 1)) (ts ! (i - 1));
          k0 = f (sol ! (i - 2)) (ts ! (i - 2));
          x_next = sol ! (i - 1) + h *\<^sub>R (1.5 *\<^sub>R k1 - 0.5 *\<^sub>R k0)
      in st\<lparr>solution := sol[i := x_next], f_evals := f_evals st + 2\<rparr>)"

text \<open>The Euler bootstrap \<^verbatim>\<open>k1 = f(x0, t0); x1 = x0 + h * k1; solution[1] = x1\<close>.\<close>

definition euler_start :: "('v::real_vector \<Rightarrow> real \<Rightarrow> 'v) \<Rightarrow> 'v \<Rightarrow> real \<Rightarrow> real \<Rightarrow> 'v run \<Rightarrow> 'v run" where
  "euler_start f x0 t0 h st =
     (let k1 = f x0 t0; x1 = x0 + h *\<^sub>R k1
      in st\<lparr>solution := (solution st)[1 := x1], f_evals := f_evals st + 1\<rparr>)"

definition adams_bashforth_2 ::
  "('v::real_vector \<Rightarrow> real \<Rightarrow> 'v) \<Rightarrow> 'v \<Rightarrow> real \<Rightarrow> real \<Rightarrow> real \<Rightarrow> error + 'v run" where
  "adams_bashforth_2 f x0 t0 tf h =
     (case init_run x0 t0 tf h of
        Inl e \<Rightarrow> Inl e
      | Inr st \<Rightarrow>
          let n = length (time_points st) in
          if n > 1 then Inr (fold (ab2_step f h) [2..<n] (euler_start f x0 t0 h st))
          else Inr st)"

subsection \<open>adams_moulton_2\<close>

text \<open>
  The body of \<^verbatim>\<open>for i in range(2, num_steps)\<close>. The closure \<^verbatim>\<open>implicit_equation\<close> reads
  the buffer and the grid of the iteration that builds it, and the solver runs it before the
  iteration ends. It computes \<^verbatim>\<open>x_pred\<close> and does not use it; the guess handed to the solver is
  \<^verbatim>\<open>solution[i - 1]\<close>.
\<close>

definition am2_step ::
  "(('v::real_vector \<Rightarrow> 'v) \<Rightarrow> 'v \<Rightarrow> 'v) \<Rightarrow> ('v \<Rightarrow> real \<Rightarrow> 'v) \<Rightarrow> real \<Rightarrow> nat \<Rightarrow> 'v run \<Rightarrow> 'v run" where
  "am2_step fsolve f h i st =
     (let sol = solution st; ts = time_points st;
          t = ts ! i;
          implicit_equation = (\<lambda>x_next.
            let k1 = f (sol ! (i - 1)) (ts ! (i - 1));
                k0 = f (sol ! (i - 2)) (ts ! (i - 2));
                x_pred = sol ! (i - 1) + h *\<^sub>R (1.5 *\<^sub>R k1 - 0.5 *\<^sub>R k0);
                k_next = f x_next t;
                k1 = f (sol ! (i - 1)) (ts ! (i - 1))
            in x_next - (sol ! (i - 1) + h *\<^sub>R (0.5 *\<^sub>R k_next + 0.5 *\<^sub>R k1)))
      in st\<lparr>solution := sol[i := fsolve implicit_equation (sol ! (i - 1))],
             solves := solves st + 1\<rparr>)"

definition adams_moulton_2 ::
  "(('v::real_vector \<Rightarrow> 'v) \<Rightarrow> 'v \<Rightarrow> 'v) \<Rightarrow> ('v \<Rightarrow> real \<Rightarrow> 'v) \<Rightarrow> 'v \<Rightarrow> real \<Rightarrow> real \<Rightarrow> real
     \<Rightarrow> error + 'v run" where
  "adams_moulton_2 fsolve f x0 t0 tf h =
     (case init_run x0 t0 tf h of
        Inl e \<Rightarrow> Inl e
      | Inr st \<Rightarrow>
          let n = length (time_points st) in
          if n > 1 then Inr (fold (am2_step fsolve f h) [2..<n] (euler_start f x0 t0 h st))
          else Inr st)"

subsection \<open>adams_bashforth_4\<close>

text \<open>The body of \<^verbatim>\<open>for i in range(1, min(4, num_steps))\<close>: one Runge-Kutta step.\<close>

definition rk4_step :: "('v::real_vector \<Rightarrow> real \<Rightarrow> 'v) \<Rightarrow> real \<Rightarrow> nat \<Rightarrow> 'v run \<Rightarrow> 'v run" where
  "rk4_step f h i st =
     (let sol = solution st; ts = time_points st;
          t = ts ! (i - 1);
          k1 = f (sol ! (i - 1)) t;
          k2 = f (sol ! (i - 1) + (0.5 * h) *\<^sub>R k1) (t + 0.5 * h);
          k3 = f (sol ! (i - 1) + (0.5 * h) *\<^sub>R k2) (t + 0.5 * h);
          k4 = f (sol ! (i - 1) + h *\<^sub>R k3) (t + h)
      in st\<lparr>solution := sol[i := sol ! (i - 1) + (h *\<^sub>R (k1 + 2 *\<^sub>R k2 + 2 *\<^sub>R k3 + k4)) /\<^sub>R 6],
             f_evals := f_evals st + 4\<rparr>)"

text \<open>The body of \<^verbatim>\<open>for i in range(4, num_steps)\<close>; \<open>k\<close> is the list comprehension over \<open>j = 1..4\<close>.\<close>

definition ab4_step :: "('v::real_vector \<Rightarrow> real \<Rightarrow> 'v) \<Rightarrow> real \<Rightarrow> nat \<Rightarrow> 'v run \<Rightarrow> 'v run" where
  "ab4_step f h i st =
     (let sol = solution st; ts = time_points st;
          k = map (\<lambda>j. f (sol ! (i - j)) (ts ! (i - j))) [1..<5];
          x_next = sol ! (i - 1) + h *\<^sub>R ((55 / 24) *\<^sub>R k ! 0 - (59 / 24) *\<^sub>R k ! 1
                                           + (37 / 24) *\<^sub>R k ! 2 - (9 / 24) *\<^sub>R k ! 3)
      in st\<lparr>solution := sol[i := x_next], f_evals := f_evals st + 4\<rparr>)"

definition adams_bashforth_4 ::
  "('v::real_vector \<Rightarrow> real \<Rightarrow> 'v) \<Rightarrow> 'v \<Rightarrow> real \<Rightarrow> real \<Rightarrow> real \<Rightarrow> error + 'v run" where
  "adams_bashforth_4 f x0 t0 tf h =
     (case init_run x0 t0 tf h of
        Inl e \<Rightarrow> Inl e
      | Inr st \<Rightarrow>
          let n = length (time_points st) in
          if n > 1 then
            Inr (fold (ab4_step f h) [4..<n] (fold (rk4_step f h) [1..<min 4 n] st))
          else Inr st)"

subsection \<open>custom_dirk_method\<close>

text \<open>
  The body of \<^verbatim>\<open>for i in range(1, num_steps)\<close>. The outer closure runs the inner solve, for
  the stage derivative, each time the outer solver evaluates it.
\<close>

definition dirk_step ::
  "(('v::real_vector \<Rightarrow> 'v) \<Rightarrow> 'v \<Rightarrow> 'v) \<Rightarrow> ('v \<Rightarrow> real \<Rightarrow> 'v) \<Rightarrow> real \<Rightarrow> nat \<Rightarrow> 'v run \<Rightarrow> 'v run" where
  "dirk_step fsolve f h i st =
     (let sol = solution st; ts = time_points st;
          t_prev = ts ! (i - 1);
          t_curr = ts ! i;
          implicit_equation = (\<lambda>x_next.
            let gamma = (3 - sqrt 3) / 6;
                stage_equation = (\<lambda>k1.
                  let stage_arg = sol ! (i - 1) + (h * gamma) *\<^sub>R k1
                  in f stage_arg (t_prev + h * gamma) - k1);
                k1 = fsolve stage_equation (f (sol ! (i - 1)) t_prev)
            in sol ! (i - 1) + h *\<^sub>R k1 - x_next)
      in st\<lparr>solution := sol[i := fsolve implicit_equation (sol ! (i - 1))],
             solves := solves st + 1\<rparr>)"

definition custom_dirk_method ::
  "(('v::real_vector \<Rightarrow> 'v) \<Rightarrow> 'v \<Rightarrow> 'v) \<Rightarrow> ('v \<Rightarrow> real \<Rightarrow> 'v) \<Rightarrow> 'v \<Rightarrow> real \<Rightarrow> real \<Rightarrow> real
     \<Rightarrow> error + 'v run" where
  "custom_dirk_method fsolve f x0 t0 tf h =
     (case init_run x0 t0 tf h of
        Inl e \<Rightarrow> Inl e
      | Inr st \<Rightarrow> Inr (fold (dirk_step fsolve f h) [1..<length (time_points st)] st))"

text \<open>What a method hands back to its caller: \<^verbatim>\<open>return time_points, solution\<close>.\<close>

definition returned :: "'v run \<Rightarrow> real list \<times> 'v list" where
  "returned r = (time_points r, solution r)"

subsection \<open>The direct form of the DIRK step\<close>

text \<open>
  The specification's reading of the DIRK step, to compare with \<open>dirk_step\<close>: solve the stage
  equation for \<open>k1\<close> from the guess \<open>f(x_{i-1}, t_{i-1})\<close>, then assign
  \<open>x_i = x_{i-1} + h*k1\<close> with no outer solve.
\<close>

definition dirk_direct_step ::
  "(('v::real_vector \<Rightarrow> 'v) \<Rightarrow> 'v \<Rightarrow> 'v) \<Rightarrow> ('v \<Rightarrow> real \<Rightarrow> 'v) \<Rightarrow> real \<Rightarrow> nat \<Rightarrow> 'v run \<Rightarrow> 'v run" where
  "dirk_direct_step fsolve f h i st =
     (let sol = solution st; ts = time_points st;
          t_prev = ts ! (i - 1);
          gamma = (3 - sqrt 3) / 6;
          k1 = fsolve (\<lambda>k1. f (sol ! (i - 1) + (h * gamma) *\<^sub>R k1) (t_prev + h * gamma) - k1)
                      (f (sol ! (i - 1)) t_prev)
      in st\<lparr>solution := sol[i := sol ! (i - 1) + h *\<^sub>R k1],
             f_evals := f_evals st + 1, solves := solves st + 1\<rparr>)"

definition dirk_direct ::
  "(('v::real_vector \<Rightarrow> 'v) \<Rightarrow> 'v \<Rightarrow> 'v) \<Rightarrow> ('v \<Rightarrow> real \<Rightarrow> 'v) \<Rightarrow> 'v \<Rightarrow> real \<Rightarrow> real \<Rightarrow> real
     \<Rightarrow> error + 'v run" where
  "dirk_direct fsolve f x0 t0 tf h =
     (case init_run x0 t0 tf h of
        Inl e \<Rightarrow> Inl e
      | Inr st \<Rightarrow> Inr (fold (dirk_direct_step fsolve f h) [1..<length (time_points st)] st))"

subsection \<open>Two scalar solvers to run the implicit methods on\<close>

text \<open>
  Concrete values for the parameter \<open>fsolve\<close> on one-dimensional states. \<open>secant_solve\<close> takes
  one secant step through the residual at the guess and at the guess plus one, which lands on
  the root of every affine residual with non-zero slope. \<open>stalled_solve\<close> is a solver that
  makes no progress: it returns its guess, whatever the residual.
\<close>

definition secant_solve :: "(real \<Rightarrow> real) \<Rightarrow> real \<Rightarrow> real" where
  "secant_solve g y0 = (let d = g (y0 + 1) - g y0 in if d = 0 then y0 else y0 - g y0 / d)"

definition stalled_solve :: "(real \<Rightarrow> real) \<Rightarrow> real \<Rightarrow> real" where
  "stalled_solve g y0 = y0"

subsection \<open>Right-hand sides to run the methods on\<close>

text \<open>
  Three scalar derivative functions \<open>f(x, t)\<close> for the concrete runs below: a constant one,
  a linear one, and one whose Adams-Moulton corrector equation has no real root at step size 1.
\<close>

definition unit_rate :: "real \<Rightarrow> real \<Rightarrow> real" where
  "unit_rate x t = 1"

definition decay :: "real \<Rightarrow> real \<Rightarrow> real" where
  "decay x t = - x"

definition quadratic_rate :: "real \<Rightarrow> real \<Rightarrow> real" where
  "quadratic_rate x t = x\<^sup>2 + 1"

section \<open>compute_method_statistics of model.py\<close>

text \<open>
  A trajectory is a two-dimensional NumPy array, here the list of its rows. A binary NumPy
  operation broadcasts its operands: along each axis the two lengths are equal or one of them
  is one, otherwise the operation raises ValueError.
\<close>

definition np_shape :: "'a list list \<Rightarrow> nat \<times> nat" where
  "np_shape a = (length a, if a = [] then 0 else length (hd a))"

definition np_broadcast :: "nat \<Rightarrow> nat \<Rightarrow> nat option" where
  "np_broadcast n m =
     (if n = m then Some n else if n = 1 then Some m else if m = 1 then Some n else None)"

definition np_binary :: "('a \<Rightarrow> 'b \<Rightarrow> 'c) \<Rightarrow> 'a list list \<Rightarrow> 'b list list \<Rightarrow> error + 'c list list" where
  "np_binary oper a b =
     (case (np_broadcast (fst (np_shape a)) (fst (np_shape b)),
            np_broadcast (snd (np_shape a)) (snd (np_shape b))) of
        (Some n, Some d) \<Rightarrow>
          Inr (map (\<lambda>i. map (\<lambda>j.
                 oper (a ! (if fst (np_shape a) = 1 then 0 else i)
                         ! (if snd (np_shape a) = 1 then 0 else j))
                      (b ! (if fst (np_shape b) = 1 then 0 else i)
                         ! (if snd (np_shape b) = 1 then 0 else j))) [0..<d]) [0..<n])
      | _ \<Rightarrow> Inl ValueError)"

text \<open>
  NumPy's division does not raise on a zero denominator: it warns and stores inf or nan.
  That outcome is \<open>None\<close>.
\<close>

definition np_divide :: "real \<Rightarrow> real \<Rightarrow> real option" where
  "np_divide a d = (if d = 0 then None else Some (a / d))"

text \<open>
  \<^verbatim>\<open>np.max\<close> over all elements raises ValueError on an array without elements. \<^verbatim>\<open>np.mean\<close>
  is only reached on an array with elements, after \<^verbatim>\<open>np.max\<close> has passed.
\<close>

definition np_max :: "real list list \<Rightarrow> error + real" where
  "np_max a = (let xs = concat a in if xs = [] then Inl ValueError
               else Inr (fold max (tl xs) (hd xs)))"

definition np_mean :: "real list list \<Rightarrow> real" where
  "np_mean a = (let xs = concat a in sum_list xs / real (length xs))"

text \<open>The same reductions on an array that may hold inf or nan: one such element taints the result.\<close>

definition np_max_opt :: "real option list list \<Rightarrow> error + real option" where
  "np_max_opt a = (let xs = concat a in if xs = [] then Inl ValueError
                   else if None \<in> set xs then Inr None
                   else Inr (Some (fold max (tl (map the xs)) (hd (map the xs)))))"

definition np_mean_opt :: "real option list list \<Rightarrow> real option" where
  "np_mean_opt a = (let xs = concat a in if None \<in> set xs then None
                    else Some (sum_list (map the xs) / real (length xs)))"

record stats =
  max_abs_error :: real
  mean_abs_error :: real
  max_rel_error :: "real option"
  mean_rel_error :: "real option"

text \<open>
  The body of the loop for one method other than the reference:
  \<^verbatim>\<open>
  abs_error = np.abs(sol - ref_sol)
  rel_error = abs_error / (np.abs(ref_sol) + 1e-10)
  stats[method] = {'max_abs_error': np.max(abs_error), 'mean_abs_error': np.mean(abs_error),
                   'max_rel_error': np.max(rel_error), 'mean_rel_error': np.mean(rel_error)}
  \<close>
\<close>

definition rel_denominators :: "real list list \<Rightarrow> real list list" where
  "rel_denominators ref_sol = map (map (\<lambda>r. \<bar>r\<bar> + 1 / 10 ^ 10)) ref_sol"

definition method_stats :: "real list list \<Rightarrow> real list list \<Rightarrow> error + stats" where
  "method_stats sol ref_sol =
     (case np_binary (-) sol ref_sol of
        Inl e \<Rightarrow> Inl e
      | Inr diff \<Rightarrow>
          let abs_error = map (map abs) diff in
          (case np_binary np_divide abs_error (rel_denominators ref_sol) of
             Inl e \<Rightarrow> Inl e
           | Inr rel_error \<Rightarrow>
               (case np_max abs_error of
                  Inl e \<Rightarrow> Inl e
                | Inr mx \<Rightarrow>
                    (case np_max_opt rel_error of
                       Inl e \<Rightarrow> Inl e
                     | Inr mxr \<Rightarrow>
                         Inr \<lparr>max_abs_error = mx, mean_abs_error = np_mean abs_error,
                              max_rel_error = mxr, mean_rel_error = np_mean_opt rel_error\<rparr>))))"

text \<open>
  \<^verbatim>\<open>results\<close> is a dict from method name to \<^verbatim>\<open>(t, sol)\<close>, here the list of its items
  in insertion order; \<^verbatim>\<open>results['DIRK']\<close> raises KeyError when the key is missing. The loop
  skips the reference method and stops at the first error.
\<close>

fun stats_loop ::
  "real list list \<Rightarrow> (string \<times> real list \<times> real list list) list \<Rightarrow> error + (string \<times> stats) list" where
  "stats_loop ref_sol [] = Inr []"
| "stats_loop ref_sol ((method, (t, sol)) # rest) =
     (if method \<noteq> ''DIRK'' then
        (case method_stats sol ref_sol of
           Inl e \<Rightarrow> Inl e
         | Inr s \<Rightarrow>
             (case stats_loop ref_sol rest of
                Inl e \<Rightarrow> Inl e
              | Inr out \<Rightarrow> Inr ((method, s) # out)))
      else stats_loop ref_sol rest)"

definition compute_method_statistics ::
  "(string \<times> real list \<times> real list list) list \<Rightarrow> error + (string \<times> stats) list" where
  "compute_method_statistics results =
     (case map_of results ''DIRK'' of
        None \<Rightarrow> Inl KeyError
      | Some (ref_time, ref_sol) \<Rightarrow> stats_loop ref_sol results)"

section \<open>Properties\<close>

subsection \<open>Loops that fill a buffer from its earlier entries\<close>

lemma fold_fill_length:
  "length (fold (\<lambda>i s. s[i := g i s]) is s0) = length s0"
  by (induction "is" arbitrary: s0) simp_all

lemma fold_fill_below:
  "i < a \<Longrightarrow> fold (\<lambda>i s. s[i := g i s]) [a..<b] s0 ! i = s0 ! i"
  by (induction b) simp_all

lemma fold_fill_nth:
  assumes dep: "\<And>i s s'. a \<le> i \<Longrightarrow> i < b \<Longrightarrow> length s = length s'
                  \<Longrightarrow> (\<forall>j<i. s ! j = s' ! j) \<Longrightarrow> g i s = g i s'"
    and len: "b \<le> length s0" and i: "a \<le> i" "i < b"
  shows "fold (\<lambda>i s. s[i := g i s]) [a..<b] s0 ! i
           = g i (fold (\<lambda>i s. s[i := g i s]) [a..<b] s0)"
  using dep len i
proof (induction b arbitrary: i)
  case 0
  then show ?case by simp
next
  case (Suc b)
  let ?F = "fold (\<lambda>i s. s[i := g i s]) [a..<b] s0"
  have ab: "a \<le> b" using Suc.prems(3,4) by simp
  have lenF: "length ?F = length s0" by (rule fold_fill_length)
  have bF: "b < length ?F" using Suc.prems(2) lenF by simp
  have step: "fold (\<lambda>i s. s[i := g i s]) [a..<Suc b] s0 = ?F[b := g b ?F]"
    using ab by simp
  show ?case
  proof (cases "i = b")
    case True
    have "g b (?F[b := g b ?F]) = g b ?F"
      using ab by (intro Suc.prems(1)) simp_all
    then show ?thesis unfolding step True using bF by simp
  next
    case False
    then have ib: "i < b" using Suc.prems(4) by simp
    have IH: "?F ! i = g i ?F"
      using Suc.prems(2,3) ib by (intro Suc.IH Suc.prems(1)) simp_all
    have "g i (?F[b := g b ?F]) = g i ?F"
      using Suc.prems(3) ib by (intro Suc.prems(1)) simp_all
    then show ?thesis unfolding step using ib IH by simp
  qed
qed

subsection \<open>Rounding to a double\<close>

lemma round_even_of_int: "round_even (of_int k) = k"
  by (simp add: round_even_def)

lemma double_round_0: "double_round 0 = 0"
  by (simp add: double_round_def)

text \<open>Inside one binade the rounding is to the nearest multiple of the binade's unit.\<close>

lemma double_round_binade:
  assumes "2 powr of_int e \<le> \<bar>x\<bar>" and "\<bar>x\<bar> < 2 powr (of_int e + 1)" and "- 1022 \<le> e"
  shows "double_round x = of_int (round_even (x / 2 powr (of_int e - 52))) * 2 powr (of_int e - 52)"
proof -
  have pos: "0 < \<bar>x\<bar>" using assms(1) by (smt (verit) powr_gt_zero)
  then have "x \<noteq> 0" by simp
  moreover have "\<lfloor>log 2 \<bar>x\<bar>\<rfloor> = e"
    using assms(1,2) pos by (simp add: floor_log_eq_powr_iff)
  ultimately show ?thesis using assms(3) by (simp add: double_round_def Let_def)
qed

text \<open>Every integer below \<open>2^53\<close> in magnitude is a double.\<close>

lemma double_round_of_int:
  assumes "\<bar>k\<bar> < 2 ^ 53"
  shows "double_round (of_int k) = of_int k"
proof (cases "k = 0")
  case True
  then show ?thesis by (simp add: double_round_def)
next
  case False
  define e where "e = \<lfloor>log 2 \<bar>real_of_int k\<bar>\<rfloor>"
  have k1: "1 \<le> \<bar>real_of_int k\<bar>" using False by (simp flip: of_int_abs)
  then have "0 \<le> log 2 \<bar>real_of_int k\<bar>" by simp
  then have e0: "0 \<le> e" unfolding e_def by simp
  have "\<bar>real_of_int k\<bar> < 2 ^ 53"
    using assms by (metis of_int_abs of_int_less_numeral_power_cancel_iff)
  then have "\<bar>real_of_int k\<bar> < 2 powr 53" by simp
  then have "log 2 \<bar>real_of_int k\<bar> < 53" using k1 by (simp add: log_less_iff)
  then have e52: "e \<le> 52" unfolding e_def by linarith
  define m where "m = nat (52 - e)"
  have u: "(2::real) powr (of_int e - 52) = 1 / 2 ^ m"
  proof -
    have "of_int e - 52 = - real m" unfolding m_def using e52 by simp
    then show ?thesis by (simp add: powr_minus powr_realpow divide_inverse)
  qed
  have "real_of_int k / (1 / 2 ^ m) = of_int (k * 2 ^ m)" by simp
  then have re: "round_even (real_of_int k / (1 / 2 ^ m)) = k * 2 ^ m"
    by (simp only: round_even_of_int)
  have "double_round (of_int k)
      = of_int (round_even (of_int k / 2 powr (of_int e - 52))) * 2 powr (of_int e - 52)"
  proof -
    have mx: "max \<lfloor>log 2 \<bar>real_of_int k\<bar>\<rfloor> (- 1022) = e"
      using e0 unfolding e_def by simp
    show ?thesis using False by (simp add: double_round_def Let_def mx)
  qed
  also have "\<dots> = of_int (k * 2 ^ m) * (1 / 2 ^ m)" unfolding u re ..
  also have "\<dots> = of_int k" by simp
  finally show ?thesis .
qed

lemma double_round_numeral: "numeral n < (2::int) ^ 53 \<Longrightarrow> double_round (numeral n) = numeral n"
  using double_round_of_int[of "numeral n"] by simp

lemma double_round_1: "double_round 1 = 1"
  using double_round_of_int[of 1] by simp

lemma double_round_half: "double_round (1 / 2) = 1 / 2"
proof -
  have "double_round (1 / 2)
      = of_int (round_even ((1 / 2) / 2 powr (of_int (- 1) - 52))) * 2 powr (of_int (- 1) - 52)"
    by (rule double_round_binade) (simp_all add: powr_neg_numeral powr_neg_one)
  also have "\<dots> = 1 / 2"
    by (simp add: round_even_def Let_def powr_neg_numeral)
  finally show ?thesis .
qed

lemma double_round_three_halves: "double_round (3 / 2) = 3 / 2"
proof -
  have "double_round (3 / 2)
      = of_int (round_even ((3 / 2) / 2 powr (of_int 0 - 52))) * 2 powr (of_int 0 - 52)"
    by (rule double_round_binade) simp_all
  also have "\<dots> = 3 / 2"
    by (simp add: round_even_def Let_def powr_neg_numeral)
  finally show ?thesis .
qed

text \<open>The double that the literal \<^verbatim>\<open>0.3\<close> denotes, and the quotient \<^verbatim>\<open>1 / 0.3\<close>.\<close>

lemma double_round_three_tenths:
  "double_round (3 / 10) = 5404319552844595 / 18014398509481984"
proof -
  have "double_round (3 / 10)
      = of_int (round_even ((3 / 10) / 2 powr (of_int (- 2) - 52))) * 2 powr (of_int (- 2) - 52)"
    by (rule double_round_binade) (simp_all add: powr_neg_numeral)
  also have "\<dots> = 5404319552844595 / 18014398509481984"
    by (simp add: round_even_def Let_def powr_neg_numeral)
  finally show ?thesis .
qed

lemma double_round_one_by_three_tenths:
  "double_round (18014398509481984 / 5404319552844595)
     = 7505999378950827 / 2251799813685248"
proof -
  have "double_round (18014398509481984 / 5404319552844595)
      = of_int (round_even ((18014398509481984 / 5404319552844595)
                              / 2 powr (of_int 1 - 52))) * 2 powr (of_int 1 - 52)"
    by (rule double_round_binade) simp_all
  also have "\<dots> = 7505999378950827 / 2251799813685248"
    by (simp add: round_even_def Let_def powr_neg_numeral)
  finally show ?thesis .
qed

text \<open>The grid sizes of the calls that the theorems below run.\<close>

lemma num_steps_same: "num_steps t0 t0 h = 1"
  by (simp add: num_steps_def py_int_def double_round_0)

lemma num_steps_unit_step:
  "numeral k < (2::int) ^ 53 \<Longrightarrow> num_steps 0 (numeral k) 1 = numeral k + 1"
  by (simp add: num_steps_def py_int_def double_round_0 double_round_1 double_round_numeral)

lemma num_steps_three_halves: "num_steps 0 (3 / 2) (1 / 2) = 4"
  by (simp add: num_steps_def py_int_def double_round_0 double_round_half
      double_round_three_halves double_round_numeral)

lemma num_steps_three_tenths: "num_steps 0 1 (3 / 10) = 4"
  by (simp add: num_steps_def py_int_def double_round_0 double_round_1
      double_round_three_tenths double_round_one_by_three_tenths)

text \<open>
  Two calls where the rounding decides the grid size. With the literals \<^verbatim>\<open>0.3\<close> and
  \<^verbatim>\<open>0.1\<close> the quotient is the double just below 3 and the grid has 3 points, where the
  exact quotient gives 4; with \<open>tf - t0 = 1\<close> and \<open>h\<close> the double that \<^verbatim>\<open>0.1\<close> denotes the
  quotient rounds up to 10 and the grid has 11 points, where the exact quotient, just below
  10, gives 10.
\<close>

lemma double_round_one_tenth:
  "double_round (1 / 10) = 3602879701896397 / 36028797018963968"
proof -
  have "double_round (1 / 10)
      = of_int (round_even ((1 / 10) / 2 powr (of_int (- 4) - 52))) * 2 powr (of_int (- 4) - 52)"
    by (rule double_round_binade) (simp_all add: powr_neg_numeral)
  also have "\<dots> = 3602879701896397 / 36028797018963968"
    by (simp add: round_even_def Let_def powr_neg_numeral)
  finally show ?thesis .
qed

lemma double_round_doubles:
  "double_round (5404319552844595 / 18014398509481984) = 5404319552844595 / 18014398509481984"
  "double_round (3602879701896397 / 36028797018963968) = 3602879701896397 / 36028797018963968"
proof -
  have "double_round (5404319552844595 / 18014398509481984)
      = of_int (round_even ((5404319552844595 / 18014398509481984) / 2 powr (of_int (- 2) - 52)))
          * 2 powr (of_int (- 2) - 52)"
    by (rule double_round_binade) (simp_all add: powr_neg_numeral)
  also have "\<dots> = 5404319552844595 / 18014398509481984"
    by (simp add: round_even_def Let_def powr_neg_numeral)
  finally show "double_round (5404319552844595 / 18014398509481984)
      = 5404319552844595 / 18014398509481984" .
  have "double_round (3602879701896397 / 36028797018963968)
      = of_int (round_even ((3602879701896397 / 36028797018963968) / 2 powr (of_int (- 4) - 52)))
          * 2 powr (of_int (- 4) - 52)"
    by (rule double_round_binade) (simp_all add: powr_neg_numeral)
  also have "\<dots> = 3602879701896397 / 36028797018963968"
    by (simp add: round_even_def Let_def powr_neg_numeral)
  finally show "double_round (3602879701896397 / 36028797018963968)
      = 3602879701896397 / 36028797018963968" .
qed

lemma double_round_quotients:
  "double_round (5404319552844595 / 18014398509481984 / (3602879701896397 / 36028797018963968))
     = 6755399441055743 / 2251799813685248"
  "double_round (1 / (3602879701896397 / 36028797018963968)) = 10"
proof -
  let ?x = "5404319552844595 / 18014398509481984 / (3602879701896397 / 36028797018963968) :: real"
  have "double_round ?x
      = of_int (round_even (?x / 2 powr (of_int 1 - 52))) * 2 powr (of_int 1 - 52)"
    by (rule double_round_binade) simp_all
  also have "\<dots> = 6755399441055743 / 2251799813685248"
    by (simp add: round_even_def Let_def powr_neg_numeral)
  finally show "double_round ?x = 6755399441055743 / 2251799813685248" .
  let ?y = "1 / (3602879701896397 / 36028797018963968) :: real"
  have "double_round ?y
      = of_int (round_even (?y / 2 powr (of_int 3 - 52))) * 2 powr (of_int 3 - 52)"
    by (rule double_round_binade) simp_all
  also have "\<dots> = 10"
    by (simp add: round_even_def Let_def powr_neg_numeral)
  finally show "double_round ?y = 10" .
qed

lemma num_steps_where_rounding_decides:
  "num_steps 0 (3 / 10) (1 / 10) = 3"
  "num_steps 0 1 (3602879701896397 / 36028797018963968) = 11"
proof -
  have "num_steps 0 (3 / 10) (1 / 10)
      = py_int (double_round (5404319552844595 / 18014398509481984
                               / (3602879701896397 / 36028797018963968))) + 1"
    unfolding num_steps_def double_round_three_tenths double_round_one_tenth double_round_0
      diff_zero double_round_doubles ..
  also have "\<dots> = 3"
    unfolding double_round_quotients by (simp add: py_int_def)
  finally show "num_steps 0 (3 / 10) (1 / 10) = 3" .
  have "num_steps 0 1 (3602879701896397 / 36028797018963968)
      = py_int (double_round (1 / (3602879701896397 / 36028797018963968))) + 1"
    unfolding num_steps_def double_round_1 double_round_0 diff_zero double_round_doubles ..
  also have "\<dots> = 11"
    unfolding double_round_quotients by (simp add: py_int_def)
  finally show "num_steps 0 1 (3602879701896397 / 36028797018963968) = 11" .
qed

subsection \<open>Grid and set-up\<close>

lemma linspace_length: "length (linspace a b n) = n"
  by (simp add: linspace_def)

lemma linspace_nth:
  "i < n \<Longrightarrow> 2 \<le> n \<Longrightarrow> linspace a b n ! i = a + real i * ((b - a) / real (n - 1))"
  by (auto simp: linspace_def nth_list_update field_simps)

lemma linspace_0: "0 < n \<Longrightarrow> linspace a b n ! 0 = a"
  by (auto simp: linspace_def nth_list_update)

lemma init_run_Inr:
  assumes "init_run x0 t0 tf h = Inr st"
  shows "h \<noteq> 0" "0 < num_steps t0 tf h"
    "time_points st = linspace t0 tf (nat (num_steps t0 tf h))"
    "solution st = (replicate (nat (num_steps t0 tf h)) 0)[0 := x0]"
    "f_evals st = 0" "solves st = 0"
  using assms by (auto simp: init_run_def Let_def split: if_splits)

lemma fold_run_time_points:
  assumes "\<And>i st. time_points (step i st) = time_points st"
  shows "time_points (fold step is st) = time_points st"
  using assms by (induction "is" arbitrary: st) simp_all

lemma fold_run_solution:
  assumes "\<And>i st. time_points (step i st) = time_points st"
    and "\<And>i st. solution (step i st) = (solution st)[i := g (time_points st) i (solution st)]"
  shows "solution (fold step is st) = fold (\<lambda>i s. s[i := g (time_points st) i s]) is (solution st)"
  using assms by (induction "is" arbitrary: st) simp_all

lemma ab2_step_time_points: "time_points (ab2_step f h i st) = time_points st"
  by (simp add: ab2_step_def Let_def)

lemma ab2_step_solution:
  "solution (ab2_step f h i st) = (solution st)[i :=
     (\<lambda>ts i s. s ! (i - 1) + h *\<^sub>R (1.5 *\<^sub>R f (s ! (i - 1)) (ts ! (i - 1))
                                      - 0.5 *\<^sub>R f (s ! (i - 2)) (ts ! (i - 2))))
       (time_points st) i (solution st)]"
  by (simp add: ab2_step_def Let_def)


lemma ab2_run:
  assumes "adams_bashforth_2 f x0 t0 tf h = Inr r"
  obtains st where "init_run x0 t0 tf h = Inr st"
    and "time_points r = time_points st"
    and "length (time_points st) \<le> 1 \<longrightarrow> r = st"
    and "1 < length (time_points st) \<longrightarrow>
          solution r = fold (\<lambda>i s. s[i := s ! (i - 1) + h *\<^sub>R
              (1.5 *\<^sub>R f (s ! (i - 1)) (time_points st ! (i - 1))
               - 0.5 *\<^sub>R f (s ! (i - 2)) (time_points st ! (i - 2)))])
            [2..<length (time_points st)] ((solution st)[1 := x0 + h *\<^sub>R f x0 t0])"
proof (cases "init_run x0 t0 tf h")
  case (Inl e)
  with assms show ?thesis by (simp add: adams_bashforth_2_def)
next
  case (Inr st)
  let ?s1 = "euler_start f x0 t0 h st"
  have ts1: "time_points ?s1 = time_points st" and sol1: "solution ?s1 = (solution st)[1 := x0 + h *\<^sub>R f x0 t0]"
    by (simp_all add: euler_start_def Let_def)
  show ?thesis
  proof (cases "1 < length (time_points st)")
    case True
    then have r: "r = fold (ab2_step f h) [2..<length (time_points st)] ?s1"
      using assms Inr by (simp add: adams_bashforth_2_def Let_def)
    have "time_points r = time_points st"
      unfolding r using ts1 by (simp add: fold_run_time_points[of "ab2_step f h", OF ab2_step_time_points])
    moreover have "solution r = fold (\<lambda>i s. s[i := s ! (i - 1) + h *\<^sub>R
              (1.5 *\<^sub>R f (s ! (i - 1)) (time_points st ! (i - 1))
               - 0.5 *\<^sub>R f (s ! (i - 2)) (time_points st ! (i - 2)))])
            [2..<length (time_points st)] ((solution st)[1 := x0 + h *\<^sub>R f x0 t0])"
      unfolding r
      by (simp add: fold_run_solution[of "ab2_step f h", OF ab2_step_time_points ab2_step_solution] ts1 sol1)
    ultimately show ?thesis using that[OF Inr] True by simp
  next
    case False
    then have "r = st" using assms Inr by (simp add: adams_bashforth_2_def Let_def)
    then show ?thesis using that[OF Inr] False by simp
  qed
qed

subsection \<open>The recurrence of adams_bashforth_2\<close>

text \<open>The points that \<open>adams_bashforth_2\<close> stores, by the invariant that step \<open>i\<close> reads only entries below \<open>i\<close>.\<close>

lemma ab2_points:
  assumes run: "adams_bashforth_2 f x0 t0 tf h = Inr r"
  shows "solution r ! 0 = x0
       \<and> (1 < length (time_points r) \<longrightarrow> solution r ! 1 = x0 + h *\<^sub>R f x0 t0)
       \<and> (\<forall>i. 2 \<le> i \<and> i < length (time_points r) \<longrightarrow>
            solution r ! i = solution r ! (i - 1)
              + h *\<^sub>R (1.5 *\<^sub>R f (solution r ! (i - 1)) (time_points r ! (i - 1))
                       - 0.5 *\<^sub>R f (solution r ! (i - 2)) (time_points r ! (i - 2))))"
proof -
  from run obtain st where st: "init_run x0 t0 tf h = Inr st"
    and ts: "time_points r = time_points st"
    and short: "length (time_points st) \<le> 1 \<longrightarrow> r = st"
    and long: "1 < length (time_points st) \<longrightarrow>
          solution r = fold (\<lambda>i s. s[i := s ! (i - 1) + h *\<^sub>R
              (1.5 *\<^sub>R f (s ! (i - 1)) (time_points st ! (i - 1))
               - 0.5 *\<^sub>R f (s ! (i - 2)) (time_points st ! (i - 2)))])
            [2..<length (time_points st)] ((solution st)[1 := x0 + h *\<^sub>R f x0 t0])"
    by (rule ab2_run)
  let ?n = "nat (num_steps t0 tf h)"
  note init = init_run_Inr[OF st]
  have n: "length (time_points st) = ?n" "0 < ?n"
    using init by (simp_all add: linspace_length)
  have len0: "length (solution st) = ?n" using init by simp
  show ?thesis
  proof (cases "1 < ?n")
    case False
    then have n1: "?n = 1" using n by simp
    then have "r = st" using short n by simp
    then show ?thesis using init(4) ts n(1) n1 by simp
  next
    case True
    let ?g = "\<lambda>i s. s ! (i - 1) + h *\<^sub>R
              (1.5 *\<^sub>R f (s ! (i - 1)) (time_points st ! (i - 1))
               - 0.5 *\<^sub>R f (s ! (i - 2)) (time_points st ! (i - 2)))"
    let ?s1 = "(solution st)[1 := x0 + h *\<^sub>R f x0 t0]"
    have sol: "solution r = fold (\<lambda>i s. s[i := ?g i s]) [2..<?n] ?s1"
      using long True n by simp
    have p0: "solution r ! 0 = x0"
      unfolding sol using init n by (simp add: fold_fill_below)
    have p1: "solution r ! 1 = x0 + h *\<^sub>R f x0 t0"
      unfolding sol using len0 True by (simp add: fold_fill_below)
    have rec: "solution r ! i = ?g i (solution r)" if "2 \<le> i" "i < ?n" for i
      unfolding sol
    proof (rule fold_fill_nth[where g = ?g])
      fix j and s s' :: "'a list"
      assume "2 \<le> j" and "\<forall>k<j. s ! k = s' ! k"
      then have "s ! (j - 1) = s' ! (j - 1)" "s ! (j - 2) = s' ! (j - 2)" by simp_all
      then show "?g j s = ?g j s'" by simp
    qed (use that len0 in simp_all)
    show ?thesis using p0 p1 rec ts n by simp
  qed
qed

text \<open>
  Claim C5. In \<open>adams_bashforth_2\<close>, point 0 of the trajectory is \<open>x0\<close>; when the grid has
  more than one point, point 1 is the explicit Euler step \<open>x0 + h * f(x0, t0)\<close>; and for
  every step index \<open>i \<ge> 2\<close> the new point is
  \<open>x_i = x_{i-1} + h * (1.5 * f(x_{i-1}, t_{i-1}) - 0.5 * f(x_{i-2}, t_{i-2}))\<close>, where the
  \<open>t_j\<close> are the grid times.
\<close>

theorem adams_bashforth_2_recurrence:
  assumes run: "adams_bashforth_2 f x0 t0 tf h = Inr r"
  shows "solution r ! 0 = x0
       \<and> (1 < length (time_points r) \<longrightarrow> solution r ! 1 = x0 + h *\<^sub>R f x0 t0)
       \<and> (\<forall>i. 2 \<le> i \<and> i < length (time_points r) \<longrightarrow>
            solution r ! i = solution r ! (i - 1)
              + h *\<^sub>R (1.5 *\<^sub>R f (solution r ! (i - 1)) (time_points r ! (i - 1))
                       - 0.5 *\<^sub>R f (solution r ! (i - 2)) (time_points r ! (i - 2))))"
  using run by (rule ab2_points)

theorem adams_bashforth_2_recurrence_witness:
  "adams_bashforth_2 (\<lambda>x t. - x) (1::real) 0 3 1
      = Inr \<lparr>time_points = [0, 1, 2, 3], solution = [1, 0, 1 / 2, - (1 / 4)],
             f_evals = 5, solves = 0\<rparr>
   \<and> [1, 0, 1 / 2, - (1 / 4)] ! 1 = (1::real) + 1 *\<^sub>R (- 1)
   \<and> [1, 0, 1 / 2, - (1 / 4)] ! 3 = (1 / 2 :: real) + 1 *\<^sub>R (1.5 *\<^sub>R (- (1 / 2)) - 0.5 *\<^sub>R (- 0))"
proof -
  have run: "adams_bashforth_2 (\<lambda>x t. - x) (1::real) 0 3 1
      = Inr \<lparr>time_points = [0, 1, 2, 3], solution = [1, 0, 1 / 2, - (1 / 4)],
             f_evals = 5, solves = 0\<rparr>"
    by (simp add: adams_bashforth_2_def init_run_def num_steps_unit_step linspace_def
        euler_start_def ab2_step_def Let_def eval_nat_numeral upt_rec)
  from adams_bashforth_2_recurrence[OF run] show ?thesis using run by simp
qed

subsection \<open>What every method does with the grid and the buffer\<close>

lemma euler_start_simps:
  "time_points (euler_start f x0 t0 h st) = time_points st"
  "solution (euler_start f x0 t0 h st) = (solution st)[1 := x0 + h *\<^sub>R f x0 t0]"
  "f_evals (euler_start f x0 t0 h st) = f_evals st + 1"
  "solves (euler_start f x0 t0 h st) = solves st"
  by (simp_all add: euler_start_def Let_def)

lemma am2_step_time_points: "time_points (am2_step fsolve f h i st) = time_points st"
  by (simp add: am2_step_def Let_def)

lemma rk4_step_time_points: "time_points (rk4_step f h i st) = time_points st"
  by (simp add: rk4_step_def Let_def)

lemma ab4_step_time_points: "time_points (ab4_step f h i st) = time_points st"
  by (simp add: ab4_step_def Let_def)

lemma dirk_step_time_points: "time_points (dirk_step fsolve f h i st) = time_points st"
  by (simp add: dirk_step_def Let_def)

lemma fold_run_length:
  assumes "\<And>i st. length (solution (step i st)) = length (solution st)"
  shows "length (solution (fold step is st)) = length (solution st)"
  using assms by (induction "is" arbitrary: st) simp_all

lemma step_lengths:
  "length (solution (ab2_step f h i st)) = length (solution st)"
  "length (solution (am2_step fsolve f h i st)) = length (solution st)"
  "length (solution (rk4_step f h i st)) = length (solution st)"
  "length (solution (ab4_step f h i st)) = length (solution st)"
  "length (solution (dirk_step fsolve f h i st)) = length (solution st)"
  by (simp_all add: ab2_step_def am2_step_def rk4_step_def ab4_step_def dirk_step_def Let_def)

text \<open>The common prefix succeeds exactly when \<open>h\<close> is not zero and the grid size is positive.\<close>

lemma init_run_pos:
  assumes "h \<noteq> 0" and "0 < num_steps t0 tf h"
  shows "init_run x0 t0 tf h = Inr \<lparr>time_points = linspace t0 tf (nat (num_steps t0 tf h)),
            solution = (replicate (nat (num_steps t0 tf h)) 0)[0 := x0],
            f_evals = 0, solves = 0\<rparr>"
  using assms by (simp add: init_run_def Let_def)

text \<open>Each method returns the grid and a buffer of the grid's length.\<close>

lemma ab2_grid:
  assumes "adams_bashforth_2 f x0 t0 tf h = Inr r"
  shows "time_points r = linspace t0 tf (nat (num_steps t0 tf h))
       \<and> length (solution r) = nat (num_steps t0 tf h)"
proof -
  obtain st where st: "init_run x0 t0 tf h = Inr st"
    using assms by (cases "init_run x0 t0 tf h") (simp_all add: adams_bashforth_2_def)
  note init = init_run_Inr[OF st]
  have r: "r = st \<or> r = fold (ab2_step f h) [2..<length (time_points st)] (euler_start f x0 t0 h st)"
    using assms st by (auto simp: adams_bashforth_2_def Let_def split: if_splits)
  then show ?thesis
    using init(3,4)
    by (auto simp: fold_run_time_points[of "ab2_step f h", OF ab2_step_time_points]
        fold_run_length[of "ab2_step f h", OF step_lengths(1)] euler_start_simps)
qed

lemma am2_grid:
  assumes "adams_moulton_2 fsolve f x0 t0 tf h = Inr r"
  shows "time_points r = linspace t0 tf (nat (num_steps t0 tf h))
       \<and> length (solution r) = nat (num_steps t0 tf h)"
proof -
  obtain st where st: "init_run x0 t0 tf h = Inr st"
    using assms by (cases "init_run x0 t0 tf h") (simp_all add: adams_moulton_2_def)
  note init = init_run_Inr[OF st]
  have r: "r = st \<or> r = fold (am2_step fsolve f h) [2..<length (time_points st)] (euler_start f x0 t0 h st)"
    using assms st by (auto simp: adams_moulton_2_def Let_def split: if_splits)
  then show ?thesis
    using init(3,4)
    by (auto simp: fold_run_time_points[of "am2_step fsolve f h", OF am2_step_time_points]
        fold_run_length[of "am2_step fsolve f h", OF step_lengths(2)] euler_start_simps)
qed

lemma ab4_grid:
  assumes "adams_bashforth_4 f x0 t0 tf h = Inr r"
  shows "time_points r = linspace t0 tf (nat (num_steps t0 tf h))
       \<and> length (solution r) = nat (num_steps t0 tf h)"
proof -
  obtain st where st: "init_run x0 t0 tf h = Inr st"
    using assms by (cases "init_run x0 t0 tf h") (simp_all add: adams_bashforth_4_def)
  note init = init_run_Inr[OF st]
  have r: "r = st \<or> r = fold (ab4_step f h) [4..<length (time_points st)]
                          (fold (rk4_step f h) [1..<min 4 (length (time_points st))] st)"
    using assms st by (auto simp: adams_bashforth_4_def Let_def split: if_splits)
  then show ?thesis
    using init(3,4)
    by (auto simp: fold_run_time_points[of "ab4_step f h", OF ab4_step_time_points]
        fold_run_time_points[of "rk4_step f h", OF rk4_step_time_points]
        fold_run_length[of "ab4_step f h", OF step_lengths(4)]
        fold_run_length[of "rk4_step f h", OF step_lengths(3)])
qed

lemma dirk_grid:
  assumes "custom_dirk_method fsolve f x0 t0 tf h = Inr r"
  shows "time_points r = linspace t0 tf (nat (num_steps t0 tf h))
       \<and> length (solution r) = nat (num_steps t0 tf h)"
proof -
  obtain st where st: "init_run x0 t0 tf h = Inr st"
    using assms by (cases "init_run x0 t0 tf h") (simp_all add: custom_dirk_method_def)
  note init = init_run_Inr[OF st]
  have r: "r = fold (dirk_step fsolve f h) [1..<length (time_points st)] st"
    using assms st by (auto simp: custom_dirk_method_def Let_def split: if_splits)
  then show ?thesis
    using init(3,4)
    by (auto simp: fold_run_time_points[of "dirk_step fsolve f h", OF dirk_step_time_points]
        fold_run_length[of "dirk_step fsolve f h", OF step_lengths(5)])
qed

lemma linspace_last: "2 \<le> n \<Longrightarrow> last (linspace a b n) = b"
  by (simp add: linspace_def last_conv_nth)

lemma linspace_spacing:
  assumes "i + 1 < n"
  shows "linspace a b n ! (i + 1) - linspace a b n ! i = (b - a) / real (n - 1)"
proof -
  define s where "s = (b - a) / real (n - 1)"
  have "2 \<le> n" "i < n" using assms by simp_all
  then have "linspace a b n ! (i + 1) = a + real (i + 1) * s" "linspace a b n ! i = a + real i * s"
    using assms unfolding s_def by (simp_all only: linspace_nth)
  then have "linspace a b n ! (i + 1) - linspace a b n ! i = s"
    by (simp add: algebra_simps)
  then show ?thesis by (simp add: s_def)
qed

text \<open>
  The grid spacing is \<open>(tf - t0) / (n - 1)\<close>: it is the step size only when \<open>tf - t0\<close> is
  \<open>n - 1\<close> steps long.
\<close>

lemma spacing_not_h:
  fixes t0 tf h :: real
  assumes "h \<noteq> 0" and "(tf - t0) / h \<notin> \<int>"
  shows "(tf - t0) / real m \<noteq> h"
proof
  assume eq: "(tf - t0) / real m = h"
  then have "m \<noteq> 0" using assms(1) by (cases "m = 0") simp_all
  then have "tf - t0 = h * real m" using eq by (simp add: field_simps)
  then have "(tf - t0) / h = real m" using assms(1) by simp
  then have "(tf - t0) / h \<in> \<int>" by simp
  then show False using assms(2) by simp
qed

lemma methods_return:
  assumes "h \<noteq> 0" and "0 < num_steps t0 tf h"
  shows "\<exists>r. adams_bashforth_2 f x0 t0 tf h = Inr r"
    "\<exists>r. adams_moulton_2 fsolve f x0 t0 tf h = Inr r"
    "\<exists>r. adams_bashforth_4 f x0 t0 tf h = Inr r"
    "\<exists>r. custom_dirk_method fsolve f x0 t0 tf h = Inr r"
  by (simp_all add: adams_bashforth_2_def adams_moulton_2_def adams_bashforth_4_def
      custom_dirk_method_def init_run_pos[OF assms] Let_def)

lemma methods_time_points:
  assumes "h \<noteq> 0" and "0 < num_steps t0 tf h"
  shows "map_sum id time_points (adams_bashforth_2 f x0 t0 tf h)
           = Inr (linspace t0 tf (nat (num_steps t0 tf h)))"
    "map_sum id time_points (adams_moulton_2 fsolve f x0 t0 tf h)
           = Inr (linspace t0 tf (nat (num_steps t0 tf h)))"
    "map_sum id time_points (adams_bashforth_4 f x0 t0 tf h)
           = Inr (linspace t0 tf (nat (num_steps t0 tf h)))"
    "map_sum id time_points (custom_dirk_method fsolve f x0 t0 tf h)
           = Inr (linspace t0 tf (nat (num_steps t0 tf h)))"
proof -
  show "map_sum id time_points (adams_bashforth_2 f x0 t0 tf h)
           = Inr (linspace t0 tf (nat (num_steps t0 tf h)))"
    using methods_return(1)[OF assms, of f x0] ab2_grid[of f x0 t0 tf h] by auto
  show "map_sum id time_points (adams_moulton_2 fsolve f x0 t0 tf h)
           = Inr (linspace t0 tf (nat (num_steps t0 tf h)))"
    using methods_return(2)[OF assms, of fsolve f x0] am2_grid[of fsolve f x0 t0 tf h] by auto
  show "map_sum id time_points (adams_bashforth_4 f x0 t0 tf h)
           = Inr (linspace t0 tf (nat (num_steps t0 tf h)))"
    using methods_return(3)[OF assms, of f x0] ab4_grid[of f x0 t0 tf h] by auto
  show "map_sum id time_points (custom_dirk_method fsolve f x0 t0 tf h)
           = Inr (linspace t0 tf (nat (num_steps t0 tf h)))"
    using methods_return(4)[OF assms, of fsolve f x0] dirk_grid[of fsolve f x0 t0 tf h] by auto
qed

subsection \<open>The time grid\<close>

text \<open>
  Claim C7. For every call with \<open>tf = t0\<close> and a step size other than zero, each of the four
  methods returns the one-point grid \<open>[t0]\<close> and the one-point trajectory \<open>[x0]\<close>, and the
  call evaluates \<open>f\<close> nowhere: the method body makes no evaluation of \<open>f\<close> and no solver
  invocation, so the result is the same for every \<open>f\<close> and every solver.
\<close>

theorem one_point_grid_no_evaluation:
  assumes "h \<noteq> 0"
  shows "adams_bashforth_2 f x0 t0 t0 h
           = Inr \<lparr>time_points = [t0], solution = [x0], f_evals = 0, solves = 0\<rparr>
       \<and> adams_bashforth_4 f x0 t0 t0 h
           = Inr \<lparr>time_points = [t0], solution = [x0], f_evals = 0, solves = 0\<rparr>
       \<and> adams_moulton_2 fsolve f x0 t0 t0 h
           = Inr \<lparr>time_points = [t0], solution = [x0], f_evals = 0, solves = 0\<rparr>
       \<and> custom_dirk_method fsolve f x0 t0 t0 h
           = Inr \<lparr>time_points = [t0], solution = [x0], f_evals = 0, solves = 0\<rparr>"
proof -
  have init: "init_run x0 t0 t0 h
      = Inr \<lparr>time_points = [t0], solution = [x0], f_evals = 0, solves = 0\<rparr>"
    using assms by (simp add: init_run_def num_steps_same linspace_def)
  show ?thesis
    by (simp add: adams_bashforth_2_def adams_bashforth_4_def adams_moulton_2_def
        custom_dirk_method_def init)
qed

theorem one_point_grid_no_evaluation_witness:
  "(1 / 2 :: real) \<noteq> 0
   \<and> adams_bashforth_2 (\<lambda>x t. - x) (7::real) 3 3 (1 / 2)
        = Inr \<lparr>time_points = [3], solution = [7], f_evals = 0, solves = 0\<rparr>
   \<and> adams_bashforth_4 (\<lambda>x t. - x) (7::real) 3 3 (1 / 2)
        = Inr \<lparr>time_points = [3], solution = [7], f_evals = 0, solves = 0\<rparr>
   \<and> adams_moulton_2 secant_solve (\<lambda>x t. - x) (7::real) 3 3 (1 / 2)
        = Inr \<lparr>time_points = [3], solution = [7], f_evals = 0, solves = 0\<rparr>
   \<and> custom_dirk_method secant_solve (\<lambda>x t. - x) (7::real) 3 3 (1 / 2)
        = Inr \<lparr>time_points = [3], solution = [7], f_evals = 0, solves = 0\<rparr>"
proof -
  have h: "(1 / 2 :: real) \<noteq> 0" by simp
  from one_point_grid_no_evaluation[OF h, of "\<lambda>x t. - x" "7::real" 3 secant_solve]
  show ?thesis using h by simp
qed

text \<open>
  Claim C1, at the input \<open>t0 = 0\<close>, \<open>tf = 1\<close>, \<open>h = 3/10\<close>. Each of the four methods returns
  the grid \<open>[0, 1/3, 2/3, 1]\<close>, of length \<open>floor(1 / (3/10)) + 1 = 4\<close> and starting at \<open>t0\<close>,
  whose consecutive points differ by \<open>1/3\<close> and not by the step size \<open>3/10\<close>.
\<close>

theorem grid_spacing_not_h_at_three_tenths:
  "map_sum id time_points (adams_bashforth_2 (\<lambda>x t. 1) (0::real) 0 1 (3 / 10))
      = Inr [0, 1 / 3, 2 / 3, 1]
   \<and> map_sum id time_points (adams_bashforth_4 (\<lambda>x t. 1) (0::real) 0 1 (3 / 10))
      = Inr [0, 1 / 3, 2 / 3, 1]
   \<and> map_sum id time_points (adams_moulton_2 secant_solve (\<lambda>x t. 1) (0::real) 0 1 (3 / 10))
      = Inr [0, 1 / 3, 2 / 3, 1]
   \<and> map_sum id time_points (custom_dirk_method secant_solve (\<lambda>x t. 1) (0::real) 0 1 (3 / 10))
      = Inr [0, 1 / 3, 2 / 3, 1]
   \<and> [0, 1 / 3, 2 / 3, 1 :: real] ! 1 - [0, 1 / 3, 2 / 3, 1 :: real] ! 0 \<noteq> 3 / 10"
proof -
  have h1: "(3 / 10 :: real) \<noteq> 0" and h2: "0 < num_steps 0 1 (3 / 10)"
    by (simp_all add: num_steps_three_tenths)
  have ls: "linspace 0 1 4 = [0, 1 / 3, 2 / 3, 1]"
    by (simp add: linspace_def eval_nat_numeral upt_rec)
  show ?thesis
    using methods_time_points(1)[OF h1 h2, of "\<lambda>x t. 1" "0::real"]
      methods_time_points(2)[OF h1 h2, of secant_solve "\<lambda>x t. 1" "0::real"]
      methods_time_points(3)[OF h1 h2, of "\<lambda>x t. 1" "0::real"]
      methods_time_points(4)[OF h1 h2, of secant_solve "\<lambda>x t. 1" "0::real"]
    by (simp add: ls num_steps_three_tenths)
qed

subsection \<open>What each loop stores\<close>

lemma fold_run_nth:
  assumes tp: "\<And>i st. time_points (step i st) = time_points st"
    and sol: "\<And>i st. solution (step i st) = (solution st)[i := g (time_points st) i (solution st)]"
    and dep: "\<And>i s s'. a \<le> i \<Longrightarrow> \<forall>j<i. s ! j = s' ! j
                \<Longrightarrow> g (time_points st) i s = g (time_points st) i s'"
    and len: "b \<le> length (solution st)"
  shows "a \<le> i \<Longrightarrow> i < b \<Longrightarrow> solution (fold step [a..<b] st) ! i
           = g (time_points st) i (solution (fold step [a..<b] st))"
    and "i < a \<Longrightarrow> solution (fold step [a..<b] st) ! i = solution st ! i"
proof -
  have eq: "solution (fold step [a..<b] st)
      = fold (\<lambda>i s. s[i := g (time_points st) i s]) [a..<b] (solution st)"
    by (rule fold_run_solution[of step, OF tp sol])
  show "a \<le> i \<Longrightarrow> i < b \<Longrightarrow> solution (fold step [a..<b] st) ! i
           = g (time_points st) i (solution (fold step [a..<b] st))"
    unfolding eq using dep len by (intro fold_fill_nth[where g = "g (time_points st)"]) simp_all
  show "i < a \<Longrightarrow> solution (fold step [a..<b] st) ! i = solution st ! i"
    unfolding eq by (rule fold_fill_below)
qed

lemma am2_step_solution:
  "solution (am2_step fsolve f h i st) = (solution st)[i :=
     (\<lambda>ts i s. fsolve (\<lambda>x_next. x_next - (s ! (i - 1)
                   + h *\<^sub>R (0.5 *\<^sub>R f x_next (ts ! i) + 0.5 *\<^sub>R f (s ! (i - 1)) (ts ! (i - 1)))))
                 (s ! (i - 1)))
       (time_points st) i (solution st)]"
  by (simp add: am2_step_def Let_def)

lemma rk4_step_solution:
  "solution (rk4_step f h i st) = (solution st)[i :=
     (\<lambda>ts i s. let x = s ! (i - 1); t = ts ! (i - 1);
                   k1 = f x t;
                   k2 = f (x + (0.5 * h) *\<^sub>R k1) (t + 0.5 * h);
                   k3 = f (x + (0.5 * h) *\<^sub>R k2) (t + 0.5 * h);
                   k4 = f (x + h *\<^sub>R k3) (t + h)
               in x + (h *\<^sub>R (k1 + 2 *\<^sub>R k2 + 2 *\<^sub>R k3 + k4)) /\<^sub>R 6)
       (time_points st) i (solution st)]"
  by (simp add: rk4_step_def Let_def)

lemma ab4_step_solution:
  "solution (ab4_step f h i st) = (solution st)[i :=
     (\<lambda>ts i s. s ! (i - 1) + h *\<^sub>R ((55 / 24) *\<^sub>R f (s ! (i - 1)) (ts ! (i - 1))
                                 - (59 / 24) *\<^sub>R f (s ! (i - 2)) (ts ! (i - 2))
                                 + (37 / 24) *\<^sub>R f (s ! (i - 3)) (ts ! (i - 3))
                                 - (9 / 24) *\<^sub>R f (s ! (i - 4)) (ts ! (i - 4))))
       (time_points st) i (solution st)]"
proof -
  have k: "[1..<5] = [1, 2, 3, 4::nat]" by (simp add: upt_rec)
  show ?thesis unfolding ab4_step_def Let_def k by (simp add: eval_nat_numeral)
qed

lemma dirk_step_solution:
  "solution (dirk_step fsolve f h i st) = (solution st)[i :=
     (\<lambda>ts i s. fsolve (\<lambda>x_next. s ! (i - 1)
                   + h *\<^sub>R fsolve (\<lambda>k1. f (s ! (i - 1) + (h * ((3 - sqrt 3) / 6)) *\<^sub>R k1)
                                          (ts ! (i - 1) + h * ((3 - sqrt 3) / 6)) - k1)
                                 (f (s ! (i - 1)) (ts ! (i - 1)))
                   - x_next)
                 (s ! (i - 1)))
       (time_points st) i (solution st)]"
  by (simp add: dirk_step_def Let_def)

lemma am2_stored:
  assumes run: "adams_moulton_2 fsolve f x0 t0 tf h = Inr r"
    and i: "2 \<le> i" "i < length (time_points r)"
  shows "solution r ! i =
           fsolve (\<lambda>x_next. x_next - (solution r ! (i - 1)
                     + h *\<^sub>R (0.5 *\<^sub>R f x_next (time_points r ! i)
                              + 0.5 *\<^sub>R f (solution r ! (i - 1)) (time_points r ! (i - 1)))))
                  (solution r ! (i - 1))"
proof -
  obtain st where st: "init_run x0 t0 tf h = Inr st"
    using run by (cases "init_run x0 t0 tf h") (simp_all add: adams_moulton_2_def)
  note init = init_run_Inr[OF st]
  let ?n = "nat (num_steps t0 tf h)"
  have n: "length (time_points st) = ?n" "length (solution st) = ?n"
    using init by (simp_all add: linspace_length)
  have lenr: "length (time_points r) = ?n"
    using am2_grid[OF run] by (simp add: linspace_length)
  let ?s1 = "euler_start f x0 t0 h st"
  have "1 < length (time_points st)" using n i lenr by simp
  then have "Inr r = Inr (fold (am2_step fsolve f h) [2..<length (time_points st)] ?s1)"
    using run st by (simp add: adams_moulton_2_def Let_def)
  then have r: "r = fold (am2_step fsolve f h) [2..<?n] ?s1"
    using n by simp
  have ts1: "time_points ?s1 = time_points r"
    unfolding r by (simp add: fold_run_time_points[of "am2_step fsolve f h", OF am2_step_time_points])
  have len1: "?n \<le> length (solution ?s1)" using n by (simp add: euler_start_simps)
  let ?g = "\<lambda>ts i s. fsolve (\<lambda>x_next. x_next - (s ! (i - 1)
                   + h *\<^sub>R (0.5 *\<^sub>R f x_next (ts ! i) + 0.5 *\<^sub>R f (s ! (i - 1)) (ts ! (i - 1)))))
                 (s ! (i - 1))"
  have dep: "?g T i s = ?g T i s'" if "2 \<le> i" "\<forall>j<i. s ! j = s' ! j" for T i and s s' :: "'a list"
  proof -
    have "s ! (i - 1) = s' ! (i - 1)" using that by simp
    then show ?thesis by simp
  qed
  note X = fold_run_nth(1)[where step = "am2_step fsolve f h" and g = ?g and a = 2 and st = ?s1
      and b = ?n, OF am2_step_time_points am2_step_solution]
  have "solution (fold (am2_step fsolve f h) [2..<?n] ?s1) ! i
      = ?g (time_points ?s1) i (solution (fold (am2_step fsolve f h) [2..<?n] ?s1))"
    by (rule X[OF dep len1 i(1)]) (use i lenr in simp_all)
  then show ?thesis unfolding r[symmetric] ts1 .
qed

lemma dirk_stored:
  assumes run: "custom_dirk_method fsolve f x0 t0 tf h = Inr r"
    and i: "1 \<le> i" "i < length (time_points r)"
  shows "solution r ! i =
           fsolve (\<lambda>x_next. solution r ! (i - 1)
                     + h *\<^sub>R fsolve (\<lambda>k1. f (solution r ! (i - 1) + (h * ((3 - sqrt 3) / 6)) *\<^sub>R k1)
                                            (time_points r ! (i - 1) + h * ((3 - sqrt 3) / 6)) - k1)
                                   (f (solution r ! (i - 1)) (time_points r ! (i - 1)))
                     - x_next)
                  (solution r ! (i - 1))"
proof -
  obtain st where st: "init_run x0 t0 tf h = Inr st"
    using run by (cases "init_run x0 t0 tf h") (simp_all add: custom_dirk_method_def)
  note init = init_run_Inr[OF st]
  let ?n = "nat (num_steps t0 tf h)"
  have n: "length (time_points st) = ?n" "length (solution st) = ?n"
    using init by (simp_all add: linspace_length)
  have lenr: "length (time_points r) = ?n"
    using dirk_grid[OF run] by (simp add: linspace_length)
  have r: "r = fold (dirk_step fsolve f h) [1..<?n] st"
    using run st n by (simp add: custom_dirk_method_def)
  have ts1: "time_points st = time_points r"
    unfolding r by (simp add: fold_run_time_points[of "dirk_step fsolve f h", OF dirk_step_time_points])
  have len1: "?n \<le> length (solution st)" using n by simp
  let ?g = "\<lambda>ts i s. fsolve (\<lambda>x_next. s ! (i - 1)
                   + h *\<^sub>R fsolve (\<lambda>k1. f (s ! (i - 1) + (h * ((3 - sqrt 3) / 6)) *\<^sub>R k1)
                                          (ts ! (i - 1) + h * ((3 - sqrt 3) / 6)) - k1)
                                 (f (s ! (i - 1)) (ts ! (i - 1)))
                   - x_next)
                 (s ! (i - 1))"
  have dep: "?g T i s = ?g T i s'" if "1 \<le> i" "\<forall>j<i. s ! j = s' ! j" for T i and s s' :: "'a list"
  proof -
    have "s ! (i - 1) = s' ! (i - 1)" using that by simp
    then show ?thesis by simp
  qed
  note X = fold_run_nth(1)[where step = "dirk_step fsolve f h" and g = ?g and a = 1 and st = st
      and b = ?n, OF dirk_step_time_points dirk_step_solution]
  have "solution (fold (dirk_step fsolve f h) [1..<?n] st) ! i
      = ?g (time_points st) i (solution (fold (dirk_step fsolve f h) [1..<?n] st))"
    by (rule X[OF dep len1 i(1)]) (use i lenr in simp_all)
  then show ?thesis unfolding r[symmetric] ts1 .
qed

subsection \<open>The recurrence of adams_bashforth_4\<close>

text \<open>The points that \<open>adams_bashforth_4\<close> stores: the Runge-Kutta loop fills entries 1 to 3, the four-step loop the rest.\<close>

lemma ab4_points:
  assumes run: "adams_bashforth_4 f x0 t0 tf h = Inr r"
  shows "solution r ! 0 = x0
       \<and> (\<forall>i. 1 \<le> i \<and> i < min 4 (length (time_points r)) \<longrightarrow>
            solution r ! i =
              (let x = solution r ! (i - 1); t = time_points r ! (i - 1);
                   k1 = f x t;
                   k2 = f (x + (0.5 * h) *\<^sub>R k1) (t + 0.5 * h);
                   k3 = f (x + (0.5 * h) *\<^sub>R k2) (t + 0.5 * h);
                   k4 = f (x + h *\<^sub>R k3) (t + h)
               in x + (h *\<^sub>R (k1 + 2 *\<^sub>R k2 + 2 *\<^sub>R k3 + k4)) /\<^sub>R 6))
       \<and> (\<forall>i. 4 \<le> i \<and> i < length (time_points r) \<longrightarrow>
            solution r ! i = solution r ! (i - 1)
              + h *\<^sub>R ((55 / 24) *\<^sub>R f (solution r ! (i - 1)) (time_points r ! (i - 1))
                       - (59 / 24) *\<^sub>R f (solution r ! (i - 2)) (time_points r ! (i - 2))
                       + (37 / 24) *\<^sub>R f (solution r ! (i - 3)) (time_points r ! (i - 3))
                       - (9 / 24) *\<^sub>R f (solution r ! (i - 4)) (time_points r ! (i - 4))))"
proof -
  obtain st where st: "init_run x0 t0 tf h = Inr st"
    using run by (cases "init_run x0 t0 tf h") (simp_all add: adams_bashforth_4_def)
  note init = init_run_Inr[OF st]
  let ?n = "nat (num_steps t0 tf h)"
  have n: "length (time_points st) = ?n" "0 < ?n" "length (solution st) = ?n"
    using init by (simp_all add: linspace_length)
  let ?mid = "fold (rk4_step f h) [1..<min 4 ?n] st"
  have r: "r = fold (ab4_step f h) [4..<?n] ?mid"
  proof (cases "1 < ?n")
    case True
    then show ?thesis using run st n by (simp add: adams_bashforth_4_def Let_def)
  next
    case False
    then have "?n = 1" using n by simp
    then show ?thesis using run st n by (simp add: adams_bashforth_4_def Let_def)
  qed
  have ts_mid: "time_points ?mid = time_points st"
    by (rule fold_run_time_points[of "rk4_step f h", OF rk4_step_time_points])
  have ts: "time_points r = time_points st"
    unfolding r using ts_mid
    by (simp add: fold_run_time_points[of "ab4_step f h", OF ab4_step_time_points])
  have len_mid: "length (solution ?mid) = ?n"
    using n by (simp add: fold_run_length[of "rk4_step f h", OF step_lengths(3)])
  let ?rk = "\<lambda>ts i s. let x = s ! (i - 1); t = ts ! (i - 1);
                   k1 = f x t;
                   k2 = f (x + (0.5 * h) *\<^sub>R k1) (t + 0.5 * h);
                   k3 = f (x + (0.5 * h) *\<^sub>R k2) (t + 0.5 * h);
                   k4 = f (x + h *\<^sub>R k3) (t + h)
               in x + (h *\<^sub>R (k1 + 2 *\<^sub>R k2 + 2 *\<^sub>R k3 + k4)) /\<^sub>R 6"
  let ?ab = "\<lambda>ts i s. s ! (i - 1) + h *\<^sub>R ((55 / 24) *\<^sub>R f (s ! (i - 1)) (ts ! (i - 1))
                                 - (59 / 24) *\<^sub>R f (s ! (i - 2)) (ts ! (i - 2))
                                 + (37 / 24) *\<^sub>R f (s ! (i - 3)) (ts ! (i - 3))
                                 - (9 / 24) *\<^sub>R f (s ! (i - 4)) (ts ! (i - 4)))"
  have rk_dep: "?rk T i s = ?rk T i s'" if "1 \<le> i" "\<forall>j<i. s ! j = s' ! j" for T i and s s' :: "'a list"
  proof -
    have "s ! (i - 1) = s' ! (i - 1)" using that by simp
    then show ?thesis by simp
  qed
  have ab_dep: "?ab T i s = ?ab T i s'" if "4 \<le> i" "\<forall>j<i. s ! j = s' ! j" for T i and s s' :: "'a list"
  proof -
    have "s ! (i - 1) = s' ! (i - 1)" "s ! (i - 2) = s' ! (i - 2)"
      "s ! (i - 3) = s' ! (i - 3)" "s ! (i - 4) = s' ! (i - 4)" using that by simp_all
    then show ?thesis by simp
  qed
  note rk1 = fold_run_nth(1)[where step = "rk4_step f h" and g = ?rk and a = 1 and st = st
      and b = "min 4 ?n", OF rk4_step_time_points rk4_step_solution]
  note rk2 = fold_run_nth(2)[where step = "rk4_step f h" and g = ?rk and a = 1 and st = st
      and b = "min 4 ?n", OF rk4_step_time_points rk4_step_solution]
  note ab1 = fold_run_nth(1)[where step = "ab4_step f h" and g = ?ab and a = 4 and st = ?mid
      and b = ?n, OF ab4_step_time_points ab4_step_solution]
  note ab2 = fold_run_nth(2)[where step = "ab4_step f h" and g = ?ab and a = 4 and st = ?mid
      and b = ?n, OF ab4_step_time_points ab4_step_solution]
  have len_st: "min 4 ?n \<le> length (solution st)" using n by simp
  have len_mid': "?n \<le> length (solution ?mid)" using len_mid by simp
  have "solution ?mid ! 0 = solution st ! 0"
    by (rule rk2[OF rk_dep len_st]) simp_all
  then have mid_low: "solution ?mid ! 0 = x0" using init(4) n(2) by simp
  have mid_rk: "solution ?mid ! i = ?rk (time_points st) i (solution ?mid)"
    if "1 \<le> i" "i < min 4 ?n" for i
    by (rule rk1[OF rk_dep len_st that]) simp_all
  have r_low: "solution r ! i = solution ?mid ! i" if "i < 4" for i
    unfolding r by (rule ab2[OF ab_dep len_mid' that]) simp_all
  have tsm: "time_points ?mid = time_points r" using ts ts_mid by simp
  have r_ab: "solution r ! i = ?ab (time_points r) i (solution r)" if "4 \<le> i" "i < ?n" for i
  proof -
    have "solution (fold (ab4_step f h) [4..<?n] ?mid) ! i
        = ?ab (time_points ?mid) i (solution (fold (ab4_step f h) [4..<?n] ?mid))"
      by (rule ab1[OF ab_dep len_mid' that]) simp_all
    then show ?thesis unfolding r[symmetric] tsm .
  qed
  have p0: "solution r ! 0 = x0" using r_low[of 0] mid_low by simp
  have p_rk: "solution r ! i = ?rk (time_points r) i (solution r)"
    if "1 \<le> i" "i < min 4 ?n" for i
  proof -
    have i4: "i < 4" using that by simp
    have "solution r ! i = solution ?mid ! i" by (rule r_low[OF i4])
    also have "\<dots> = ?rk (time_points st) i (solution ?mid)" by (rule mid_rk[OF that])
    also have "\<dots> = ?rk (time_points st) i (solution r)"
    proof (rule rk_dep[OF that(1)])
      show "\<forall>j<i. solution ?mid ! j = solution r ! j" using r_low i4 by simp
    qed
    finally show ?thesis unfolding ts .
  qed
  have lenr: "length (time_points r) = ?n" using ts n by simp
  show ?thesis
  proof (intro conjI allI impI)
    show "solution r ! 0 = x0" by (rule p0)
  next
    fix i assume "1 \<le> i \<and> i < min 4 (length (time_points r))"
    then have "1 \<le> i" "i < min 4 ?n" using lenr by simp_all
    then show "solution r ! i =
              (let x = solution r ! (i - 1); t = time_points r ! (i - 1);
                   k1 = f x t;
                   k2 = f (x + (0.5 * h) *\<^sub>R k1) (t + 0.5 * h);
                   k3 = f (x + (0.5 * h) *\<^sub>R k2) (t + 0.5 * h);
                   k4 = f (x + h *\<^sub>R k3) (t + h)
               in x + (h *\<^sub>R (k1 + 2 *\<^sub>R k2 + 2 *\<^sub>R k3 + k4)) /\<^sub>R 6)"
      by (rule p_rk)
  next
    fix i assume "4 \<le> i \<and> i < length (time_points r)"
    then have "4 \<le> i" "i < ?n" using lenr by simp_all
    then show "solution r ! i = solution r ! (i - 1)
              + h *\<^sub>R ((55 / 24) *\<^sub>R f (solution r ! (i - 1)) (time_points r ! (i - 1))
                       - (59 / 24) *\<^sub>R f (solution r ! (i - 2)) (time_points r ! (i - 2))
                       + (37 / 24) *\<^sub>R f (solution r ! (i - 3)) (time_points r ! (i - 3))
                       - (9 / 24) *\<^sub>R f (solution r ! (i - 4)) (time_points r ! (i - 4)))"
      by (rule r_ab)
  qed
qed

text \<open>
  Claim C4. In \<open>adams_bashforth_4\<close>, point 0 is \<open>x0\<close>; each of the points 1 to 3 (as far
  as the grid reaches) comes from the previous point by one classical Runge-Kutta step of size
  \<open>h\<close>, with stages at the previous grid time, twice at that time plus \<open>h/2\<close> and at that time
  plus \<open>h\<close>, weighted \<open>(1, 2, 2, 1) / 6\<close>; and for every step index \<open>i \<ge> 4\<close> the new point is
  \<open>x_i = x_{i-1} + h * (55/24 * f(x_{i-1}, t_{i-1}) - 59/24 * f(x_{i-2}, t_{i-2})
     + 37/24 * f(x_{i-3}, t_{i-3}) - 9/24 * f(x_{i-4}, t_{i-4}))\<close>.
\<close>

theorem adams_bashforth_4_recurrence:
  assumes run: "adams_bashforth_4 f x0 t0 tf h = Inr r"
  shows "solution r ! 0 = x0
       \<and> (\<forall>i. 1 \<le> i \<and> i < min 4 (length (time_points r)) \<longrightarrow>
            solution r ! i =
              (let x = solution r ! (i - 1); t = time_points r ! (i - 1);
                   k1 = f x t;
                   k2 = f (x + (0.5 * h) *\<^sub>R k1) (t + 0.5 * h);
                   k3 = f (x + (0.5 * h) *\<^sub>R k2) (t + 0.5 * h);
                   k4 = f (x + h *\<^sub>R k3) (t + h)
               in x + (h *\<^sub>R (k1 + 2 *\<^sub>R k2 + 2 *\<^sub>R k3 + k4)) /\<^sub>R 6))
       \<and> (\<forall>i. 4 \<le> i \<and> i < length (time_points r) \<longrightarrow>
            solution r ! i = solution r ! (i - 1)
              + h *\<^sub>R ((55 / 24) *\<^sub>R f (solution r ! (i - 1)) (time_points r ! (i - 1))
                       - (59 / 24) *\<^sub>R f (solution r ! (i - 2)) (time_points r ! (i - 2))
                       + (37 / 24) *\<^sub>R f (solution r ! (i - 3)) (time_points r ! (i - 3))
                       - (9 / 24) *\<^sub>R f (solution r ! (i - 4)) (time_points r ! (i - 4))))"
  using run by (rule ab4_points)

theorem adams_bashforth_4_recurrence_witness:
  "adams_bashforth_4 (\<lambda>x t. t) (0::real) 0 5 1
      = Inr \<lparr>time_points = [0, 1, 2, 3, 4, 5], solution = [0, 1 / 2, 2, 9 / 2, 8, 25 / 2],
             f_evals = 20, solves = 0\<rparr>
   \<and> [0, 1 / 2, 2, 9 / 2, 8, 25 / 2 :: real] ! 2
        = 1 / 2 + (1 *\<^sub>R (1 + 2 *\<^sub>R (1 + 0.5 * 1) + 2 *\<^sub>R (1 + 0.5 * 1) + (1 + 1))) /\<^sub>R 6
   \<and> [0, 1 / 2, 2, 9 / 2, 8, 25 / 2 :: real] ! 5
        = 8 + 1 *\<^sub>R ((55 / 24) *\<^sub>R 4 - (59 / 24) *\<^sub>R 3 + (37 / 24) *\<^sub>R 2 - (9 / 24) *\<^sub>R 1)"
proof -
  have run: "adams_bashforth_4 (\<lambda>x t. t) (0::real) 0 5 1
      = Inr \<lparr>time_points = [0, 1, 2, 3, 4, 5], solution = [0, 1 / 2, 2, 9 / 2, 8, 25 / 2],
             f_evals = 20, solves = 0\<rparr>"
    by (simp add: adams_bashforth_4_def init_run_def num_steps_unit_step linspace_def
        rk4_step_def ab4_step_def Let_def eval_nat_numeral upt_rec)
  from adams_bashforth_4_recurrence[OF run] show ?thesis using run by simp
qed

subsection \<open>The grid against the step size\<close>

lemma ten_thirds_not_whole: "(10 / 3 :: real) \<notin> \<int>"
proof
  assume "(10 / 3 :: real) \<in> \<int>"
  then have "of_int \<lfloor>10 / 3 :: real\<rfloor> = (10 / 3 :: real)" by (metis Ints_cases floor_of_int)
  then show False by simp
qed

lemma num_steps_floor:
  assumes "2 \<le> num_steps t0 tf h"
  shows "num_steps t0 tf h
           = \<lfloor>double_round (double_round (double_round tf - double_round t0) / double_round h)\<rfloor> + 1"
proof -
  let ?q = "double_round (double_round (double_round tf - double_round t0) / double_round h)"
  have "0 \<le> ?q"
  proof (rule ccontr)
    assume "\<not> 0 \<le> ?q"
    then have "?q < 0" by simp
    then have "\<lceil>?q\<rceil> \<le> 0" by (simp add: ceiling_le_iff)
    moreover have "num_steps t0 tf h = \<lceil>?q\<rceil> + 1" using \<open>?q < 0\<close> by (simp add: num_steps_def py_int_def)
    ultimately show False using assms by simp
  qed
  then show ?thesis by (simp add: num_steps_def py_int_def)
qed

lemma am2_first:
  assumes run: "adams_moulton_2 fsolve f x0 t0 tf h = Inr r"
    and two: "2 \<le> length (time_points r)"
  shows "solution r ! 1 = x0 + h *\<^sub>R f x0 t0"
proof -
  obtain st where st: "init_run x0 t0 tf h = Inr st"
    using run by (cases "init_run x0 t0 tf h") (simp_all add: adams_moulton_2_def)
  note init = init_run_Inr[OF st]
  let ?n = "nat (num_steps t0 tf h)"
  have n: "length (time_points st) = ?n" "length (solution st) = ?n"
    using init by (simp_all add: linspace_length)
  have lenr: "length (time_points r) = ?n"
    using am2_grid[OF run] by (simp add: linspace_length)
  let ?s1 = "euler_start f x0 t0 h st"
  have "1 < length (time_points st)" using n two lenr by simp
  then have "Inr r = Inr (fold (am2_step fsolve f h) [2..<length (time_points st)] ?s1)"
    using run st by (simp add: adams_moulton_2_def Let_def)
  then have r: "r = fold (am2_step fsolve f h) [2..<?n] ?s1"
    using n by simp
  have len1: "?n \<le> length (solution ?s1)" using n by (simp add: euler_start_simps)
  let ?g = "\<lambda>ts i s. fsolve (\<lambda>x_next. x_next - (s ! (i - 1)
                   + h *\<^sub>R (0.5 *\<^sub>R f x_next (ts ! i) + 0.5 *\<^sub>R f (s ! (i - 1)) (ts ! (i - 1)))))
                 (s ! (i - 1))"
  have dep: "?g T i s = ?g T i s'" if "2 \<le> i" "\<forall>j<i. s ! j = s' ! j" for T i and s s' :: "'a list"
  proof -
    have "s ! (i - 1) = s' ! (i - 1)" using that by simp
    then show ?thesis by simp
  qed
  note X = fold_run_nth(2)[where step = "am2_step fsolve f h" and g = ?g and a = 2 and st = ?s1
      and b = ?n and i = 1, OF am2_step_time_points am2_step_solution]
  have "solution (fold (am2_step fsolve f h) [2..<?n] ?s1) ! 1 = solution ?s1 ! 1"
    by (rule X[OF dep len1]) simp_all
  also have "\<dots> = x0 + h *\<^sub>R f x0 t0"
    using n two lenr by (simp add: euler_start_simps)
  finally show ?thesis unfolding r .
qed

text \<open>
  Claim C10. For every call to any of the four integrators that returns a grid of at least two
  points: the grid has \<open>n = floor(q) + 1\<close> points, where \<open>q\<close> is the quotient
  \<open>(tf - t0) / h\<close> as the code computes it, in double arithmetic; the last grid element is
  \<open>tf\<close>; consecutive grid points differ by \<open>(tf - t0) / (n - 1)\<close>; and that spacing differs
  from the step size \<open>h\<close> whenever \<open>tf - t0\<close> is not an integer multiple of \<open>h\<close>. The
  update formulas advance by \<open>h\<close> all the same: \<open>adams_bashforth_2\<close> stores the Euler step
  and the two-step formula with \<open>h\<close>, \<open>adams_bashforth_4\<close> the Runge-Kutta steps and the
  four-step formula with \<open>h\<close>, \<open>adams_moulton_2\<close> the Euler step and the solver's answer to
  the corrector residual with \<open>h\<close>, and \<open>custom_dirk_method\<close> the solver's answer to the
  residual \<open>x_{i-1} + h * k1 - x_next\<close>.
\<close>

theorem grid_spans_to_tf:
  assumes run: "adams_bashforth_2 f x0 t0 tf h = Inr r \<or> adams_bashforth_4 f x0 t0 tf h = Inr r
            \<or> adams_moulton_2 fsolve f x0 t0 tf h = Inr r
            \<or> custom_dirk_method fsolve f x0 t0 tf h = Inr r"
    and two: "2 \<le> length (time_points r)"
  shows "length (time_points r)
           = nat (\<lfloor>double_round (double_round (double_round tf - double_round t0) / double_round h)\<rfloor> + 1)
       \<and> last (time_points r) = tf
       \<and> (\<forall>i. i + 1 < length (time_points r) \<longrightarrow>
             time_points r ! (i + 1) - time_points r ! i
               = (tf - t0) / real (length (time_points r) - 1))
       \<and> ((tf - t0) / h \<notin> \<int> \<longrightarrow> (tf - t0) / real (length (time_points r) - 1) \<noteq> h)
       \<and> (adams_bashforth_2 f x0 t0 tf h = Inr r \<longrightarrow>
            solution r ! 1 = x0 + h *\<^sub>R f x0 t0
            \<and> (\<forall>i. 2 \<le> i \<and> i < length (time_points r) \<longrightarrow>
                 solution r ! i = solution r ! (i - 1)
                   + h *\<^sub>R (1.5 *\<^sub>R f (solution r ! (i - 1)) (time_points r ! (i - 1))
                            - 0.5 *\<^sub>R f (solution r ! (i - 2)) (time_points r ! (i - 2)))))
       \<and> (adams_bashforth_4 f x0 t0 tf h = Inr r \<longrightarrow>
            (\<forall>i. 1 \<le> i \<and> i < min 4 (length (time_points r)) \<longrightarrow>
                 solution r ! i =
                   (let x = solution r ! (i - 1); t = time_points r ! (i - 1);
                        k1 = f x t;
                        k2 = f (x + (0.5 * h) *\<^sub>R k1) (t + 0.5 * h);
                        k3 = f (x + (0.5 * h) *\<^sub>R k2) (t + 0.5 * h);
                        k4 = f (x + h *\<^sub>R k3) (t + h)
                    in x + (h *\<^sub>R (k1 + 2 *\<^sub>R k2 + 2 *\<^sub>R k3 + k4)) /\<^sub>R 6))
            \<and> (\<forall>i. 4 \<le> i \<and> i < length (time_points r) \<longrightarrow>
                 solution r ! i = solution r ! (i - 1)
                   + h *\<^sub>R ((55 / 24) *\<^sub>R f (solution r ! (i - 1)) (time_points r ! (i - 1))
                            - (59 / 24) *\<^sub>R f (solution r ! (i - 2)) (time_points r ! (i - 2))
                            + (37 / 24) *\<^sub>R f (solution r ! (i - 3)) (time_points r ! (i - 3))
                            - (9 / 24) *\<^sub>R f (solution r ! (i - 4)) (time_points r ! (i - 4)))))
       \<and> (adams_moulton_2 fsolve f x0 t0 tf h = Inr r \<longrightarrow>
            solution r ! 1 = x0 + h *\<^sub>R f x0 t0
            \<and> (\<forall>i. 2 \<le> i \<and> i < length (time_points r) \<longrightarrow>
                 solution r ! i =
                   fsolve (\<lambda>x_next. x_next - (solution r ! (i - 1)
                             + h *\<^sub>R (0.5 *\<^sub>R f x_next (time_points r ! i)
                                      + 0.5 *\<^sub>R f (solution r ! (i - 1)) (time_points r ! (i - 1)))))
                          (solution r ! (i - 1))))
       \<and> (custom_dirk_method fsolve f x0 t0 tf h = Inr r \<longrightarrow>
            (\<forall>i. 1 \<le> i \<and> i < length (time_points r) \<longrightarrow>
                 solution r ! i =
                   fsolve (\<lambda>x_next. solution r ! (i - 1)
                             + h *\<^sub>R fsolve (\<lambda>k1. f (solution r ! (i - 1) + (h * ((3 - sqrt 3) / 6)) *\<^sub>R k1)
                                                    (time_points r ! (i - 1) + h * ((3 - sqrt 3) / 6)) - k1)
                                           (f (solution r ! (i - 1)) (time_points r ! (i - 1)))
                             - x_next)
                          (solution r ! (i - 1))))"
proof -
  let ?n = "nat (num_steps t0 tf h)"
  have ts: "time_points r = linspace t0 tf ?n"
    using run ab2_grid[of f x0 t0 tf h r] ab4_grid[of f x0 t0 tf h r]
      am2_grid[of fsolve f x0 t0 tf h r] dirk_grid[of fsolve f x0 t0 tf h r] by auto
  have h0: "h \<noteq> 0"
    using run
    by (auto simp: adams_bashforth_2_def adams_bashforth_4_def adams_moulton_2_def
        custom_dirk_method_def init_run_def)
  have len: "length (time_points r) = ?n" unfolding ts by (rule linspace_length)
  have n2: "2 \<le> ?n" using two len by simp
  then have "2 \<le> num_steps t0 tf h" by simp
  then have "num_steps t0 tf h
      = \<lfloor>double_round (double_round (double_round tf - double_round t0) / double_round h)\<rfloor> + 1"
    by (rule num_steps_floor)
  then have c1: "length (time_points r)
      = nat (\<lfloor>double_round (double_round (double_round tf - double_round t0) / double_round h)\<rfloor> + 1)"
    using len by simp
  have c2: "last (time_points r) = tf" unfolding ts using n2 by (rule linspace_last)
  have c3: "\<forall>i. i + 1 < length (time_points r) \<longrightarrow>
             time_points r ! (i + 1) - time_points r ! i
               = (tf - t0) / real (length (time_points r) - 1)"
    unfolding len unfolding ts using linspace_spacing by blast
  have c4: "(tf - t0) / h \<notin> \<int> \<longrightarrow> (tf - t0) / real (length (time_points r) - 1) \<noteq> h"
    using spacing_not_h[OF h0] by blast
  have c5: "adams_bashforth_2 f x0 t0 tf h = Inr r \<longrightarrow>
            solution r ! 1 = x0 + h *\<^sub>R f x0 t0
            \<and> (\<forall>i. 2 \<le> i \<and> i < length (time_points r) \<longrightarrow>
                 solution r ! i = solution r ! (i - 1)
                   + h *\<^sub>R (1.5 *\<^sub>R f (solution r ! (i - 1)) (time_points r ! (i - 1))
                            - 0.5 *\<^sub>R f (solution r ! (i - 2)) (time_points r ! (i - 2))))"
  proof
    assume "adams_bashforth_2 f x0 t0 tf h = Inr r"
    from ab2_points[OF this] two show "solution r ! 1 = x0 + h *\<^sub>R f x0 t0
            \<and> (\<forall>i. 2 \<le> i \<and> i < length (time_points r) \<longrightarrow>
                 solution r ! i = solution r ! (i - 1)
                   + h *\<^sub>R (1.5 *\<^sub>R f (solution r ! (i - 1)) (time_points r ! (i - 1))
                            - 0.5 *\<^sub>R f (solution r ! (i - 2)) (time_points r ! (i - 2))))"
      by simp
  qed
  have c6: "adams_bashforth_4 f x0 t0 tf h = Inr r \<longrightarrow>
            (\<forall>i. 1 \<le> i \<and> i < min 4 (length (time_points r)) \<longrightarrow>
                 solution r ! i =
                   (let x = solution r ! (i - 1); t = time_points r ! (i - 1);
                        k1 = f x t;
                        k2 = f (x + (0.5 * h) *\<^sub>R k1) (t + 0.5 * h);
                        k3 = f (x + (0.5 * h) *\<^sub>R k2) (t + 0.5 * h);
                        k4 = f (x + h *\<^sub>R k3) (t + h)
                    in x + (h *\<^sub>R (k1 + 2 *\<^sub>R k2 + 2 *\<^sub>R k3 + k4)) /\<^sub>R 6))
            \<and> (\<forall>i. 4 \<le> i \<and> i < length (time_points r) \<longrightarrow>
                 solution r ! i = solution r ! (i - 1)
                   + h *\<^sub>R ((55 / 24) *\<^sub>R f (solution r ! (i - 1)) (time_points r ! (i - 1))
                            - (59 / 24) *\<^sub>R f (solution r ! (i - 2)) (time_points r ! (i - 2))
                            + (37 / 24) *\<^sub>R f (solution r ! (i - 3)) (time_points r ! (i - 3))
                            - (9 / 24) *\<^sub>R f (solution r ! (i - 4)) (time_points r ! (i - 4))))"
  proof
    assume "adams_bashforth_4 f x0 t0 tf h = Inr r"
    from ab4_points[OF this] show "(\<forall>i. 1 \<le> i \<and> i < min 4 (length (time_points r)) \<longrightarrow>
                 solution r ! i =
                   (let x = solution r ! (i - 1); t = time_points r ! (i - 1);
                        k1 = f x t;
                        k2 = f (x + (0.5 * h) *\<^sub>R k1) (t + 0.5 * h);
                        k3 = f (x + (0.5 * h) *\<^sub>R k2) (t + 0.5 * h);
                        k4 = f (x + h *\<^sub>R k3) (t + h)
                    in x + (h *\<^sub>R (k1 + 2 *\<^sub>R k2 + 2 *\<^sub>R k3 + k4)) /\<^sub>R 6))
            \<and> (\<forall>i. 4 \<le> i \<and> i < length (time_points r) \<longrightarrow>
                 solution r ! i = solution r ! (i - 1)
                   + h *\<^sub>R ((55 / 24) *\<^sub>R f (solution r ! (i - 1)) (time_points r ! (i - 1))
                            - (59 / 24) *\<^sub>R f (solution r ! (i - 2)) (time_points r ! (i - 2))
                            + (37 / 24) *\<^sub>R f (solution r ! (i - 3)) (time_points r ! (i - 3))
                            - (9 / 24) *\<^sub>R f (solution r ! (i - 4)) (time_points r ! (i - 4))))"
      by (rule conjunct2)
  qed
  have c7: "adams_moulton_2 fsolve f x0 t0 tf h = Inr r \<longrightarrow>
            solution r ! 1 = x0 + h *\<^sub>R f x0 t0
            \<and> (\<forall>i. 2 \<le> i \<and> i < length (time_points r) \<longrightarrow>
                 solution r ! i =
                   fsolve (\<lambda>x_next. x_next - (solution r ! (i - 1)
                             + h *\<^sub>R (0.5 *\<^sub>R f x_next (time_points r ! i)
                                      + 0.5 *\<^sub>R f (solution r ! (i - 1)) (time_points r ! (i - 1)))))
                          (solution r ! (i - 1)))"
  proof (intro impI conjI allI)
    assume am: "adams_moulton_2 fsolve f x0 t0 tf h = Inr r"
    show "solution r ! 1 = x0 + h *\<^sub>R f x0 t0"
      by (rule am2_first[OF am two])
  next
    fix i
    assume am: "adams_moulton_2 fsolve f x0 t0 tf h = Inr r"
      and "2 \<le> i \<and> i < length (time_points r)"
    then have "2 \<le> i" "i < length (time_points r)" by simp_all
    then show "solution r ! i =
                   fsolve (\<lambda>x_next. x_next - (solution r ! (i - 1)
                             + h *\<^sub>R (0.5 *\<^sub>R f x_next (time_points r ! i)
                                      + 0.5 *\<^sub>R f (solution r ! (i - 1)) (time_points r ! (i - 1)))))
                          (solution r ! (i - 1))"
      by (rule am2_stored[OF am])
  qed
  have c8: "custom_dirk_method fsolve f x0 t0 tf h = Inr r \<longrightarrow>
            (\<forall>i. 1 \<le> i \<and> i < length (time_points r) \<longrightarrow>
                 solution r ! i =
                   fsolve (\<lambda>x_next. solution r ! (i - 1)
                             + h *\<^sub>R fsolve (\<lambda>k1. f (solution r ! (i - 1) + (h * ((3 - sqrt 3) / 6)) *\<^sub>R k1)
                                                    (time_points r ! (i - 1) + h * ((3 - sqrt 3) / 6)) - k1)
                                           (f (solution r ! (i - 1)) (time_points r ! (i - 1)))
                             - x_next)
                          (solution r ! (i - 1)))"
  proof (intro impI allI)
    fix i
    assume dk: "custom_dirk_method fsolve f x0 t0 tf h = Inr r"
      and "1 \<le> i \<and> i < length (time_points r)"
    then have "1 \<le> i" "i < length (time_points r)" by simp_all
    then show "solution r ! i =
                   fsolve (\<lambda>x_next. solution r ! (i - 1)
                             + h *\<^sub>R fsolve (\<lambda>k1. f (solution r ! (i - 1) + (h * ((3 - sqrt 3) / 6)) *\<^sub>R k1)
                                                    (time_points r ! (i - 1) + h * ((3 - sqrt 3) / 6)) - k1)
                                           (f (solution r ! (i - 1)) (time_points r ! (i - 1)))
                             - x_next)
                          (solution r ! (i - 1))"
      by (rule dirk_stored[OF dk])
  qed
  show ?thesis
    by (intro conjI) (rule c1 c2 c3 c4 c5 c6 c7 c8)+
qed

lemma unit_runs_three_tenths:
  "adams_bashforth_2 unit_rate 0 0 1 (3 / 10)
      = Inr \<lparr>time_points = [0, 1 / 3, 2 / 3, 1], solution = [0, 3 / 10, 3 / 5, 9 / 10],
             f_evals = 5, solves = 0\<rparr>"
  "adams_bashforth_4 unit_rate 0 0 1 (3 / 10)
      = Inr \<lparr>time_points = [0, 1 / 3, 2 / 3, 1], solution = [0, 3 / 10, 3 / 5, 9 / 10],
             f_evals = 12, solves = 0\<rparr>"
  "adams_moulton_2 secant_solve unit_rate 0 0 1 (3 / 10)
      = Inr \<lparr>time_points = [0, 1 / 3, 2 / 3, 1], solution = [0, 3 / 10, 3 / 5, 9 / 10],
             f_evals = 1, solves = 2\<rparr>"
  "custom_dirk_method secant_solve unit_rate 0 0 1 (3 / 10)
      = Inr \<lparr>time_points = [0, 1 / 3, 2 / 3, 1], solution = [0, 3 / 10, 3 / 5, 9 / 10],
             f_evals = 0, solves = 3\<rparr>"
  by (simp_all add: adams_bashforth_2_def adams_bashforth_4_def adams_moulton_2_def
      custom_dirk_method_def init_run_def num_steps_three_tenths linspace_def
      euler_start_def ab2_step_def rk4_step_def ab4_step_def am2_step_def dirk_step_def
      secant_solve_def unit_rate_def Let_def eval_nat_numeral upt_rec)

theorem grid_spans_to_tf_witness:
  "adams_bashforth_2 unit_rate 0 0 1 (3 / 10)
      = Inr \<lparr>time_points = [0, 1 / 3, 2 / 3, 1], solution = [0, 3 / 10, 3 / 5, 9 / 10],
             f_evals = 5, solves = 0\<rparr>
   \<and> adams_bashforth_4 unit_rate 0 0 1 (3 / 10)
      = Inr \<lparr>time_points = [0, 1 / 3, 2 / 3, 1], solution = [0, 3 / 10, 3 / 5, 9 / 10],
             f_evals = 12, solves = 0\<rparr>
   \<and> adams_moulton_2 secant_solve unit_rate 0 0 1 (3 / 10)
      = Inr \<lparr>time_points = [0, 1 / 3, 2 / 3, 1], solution = [0, 3 / 10, 3 / 5, 9 / 10],
             f_evals = 1, solves = 2\<rparr>
   \<and> custom_dirk_method secant_solve unit_rate 0 0 1 (3 / 10)
      = Inr \<lparr>time_points = [0, 1 / 3, 2 / 3, 1], solution = [0, 3 / 10, 3 / 5, 9 / 10],
             f_evals = 0, solves = 3\<rparr>
   \<and> 2 \<le> length [0, 1 / 3, 2 / 3, 1 :: real]
   \<and> (1 - 0) / (3 / 10 :: real) \<notin> \<int>
   \<and> length [0, 1 / 3, 2 / 3, 1 :: real]
        = nat (\<lfloor>double_round (double_round (double_round 1 - double_round 0) / double_round (3 / 10))\<rfloor> + 1)
   \<and> last [0, 1 / 3, 2 / 3, 1 :: real] = 1
   \<and> [0, 1 / 3, 2 / 3, 1 :: real] ! (2 + 1) - [0, 1 / 3, 2 / 3, 1 :: real] ! 2 = (1 - 0) / real (4 - 1)
   \<and> (1 - 0) / real (4 - 1) \<noteq> (3 / 10 :: real)
   \<and> [0, 3 / 10, 3 / 5, 9 / 10 :: real] ! 3
        = 3 / 5 + (3 / 10) *\<^sub>R (1.5 *\<^sub>R unit_rate (3 / 5) (2 / 3) - 0.5 *\<^sub>R unit_rate (3 / 10) (1 / 3))
   \<and> [0, 3 / 10, 3 / 5, 9 / 10 :: real] ! 3
        = secant_solve (\<lambda>x_next. x_next - (3 / 5
              + (3 / 10) *\<^sub>R (0.5 *\<^sub>R unit_rate x_next 1 + 0.5 *\<^sub>R unit_rate (3 / 5) (2 / 3)))) (3 / 5)"
proof -
  let ?ts = "[0, 1 / 3, 2 / 3, 1 :: real]"
  let ?xs = "[0, 3 / 10, 3 / 5, 9 / 10 :: real]"
  have two: "2 \<le> length (time_points \<lparr>time_points = ?ts, solution = ?xs, f_evals = k, solves = m\<rparr>)"
    for k m by simp
  have frac: "(1 - 0) / (3 / 10 :: real) \<notin> \<int>" using ten_thirds_not_whole by simp
  note ab2 = grid_spans_to_tf[where fsolve = secant_solve, OF disjI1[OF unit_runs_three_tenths(1)] two]
  note ab4 = grid_spans_to_tf[where fsolve = secant_solve,
      OF disjI2[OF disjI1[OF unit_runs_three_tenths(2)]] two]
  note am2 = grid_spans_to_tf[OF disjI2[OF disjI2[OF disjI1[OF unit_runs_three_tenths(3)]]] two]
  note dirk = grid_spans_to_tf[OF disjI2[OF disjI2[OF disjI2[OF unit_runs_three_tenths(4)]]] two]
  have g1: "length ?ts
        = nat (\<lfloor>double_round (double_round (double_round 1 - double_round 0) / double_round (3 / 10))\<rfloor> + 1)"
    using ab2 by simp
  have g2: "last ?ts = 1" using ab4 by simp
  have g3: "?ts ! (2 + 1) - ?ts ! 2 = (1 - 0) / real (4 - 1)" using dirk by simp
  have g4: "(1 - 0) / real (4 - 1) \<noteq> (3 / 10 :: real)" using am2 frac by simp
  have g5: "?xs ! 3
        = 3 / 5 + (3 / 10) *\<^sub>R (1.5 *\<^sub>R unit_rate (3 / 5) (2 / 3) - 0.5 *\<^sub>R unit_rate (3 / 10) (1 / 3))"
    using ab2 unit_runs_three_tenths(1) by (simp add: unit_rate_def)
  have g6: "?xs ! 3
        = secant_solve (\<lambda>x_next. x_next - (3 / 5
              + (3 / 10) *\<^sub>R (0.5 *\<^sub>R unit_rate x_next 1 + 0.5 *\<^sub>R unit_rate (3 / 5) (2 / 3)))) (3 / 5)"
    using am2 unit_runs_three_tenths(3) by (simp add: unit_rate_def secant_solve_def)
  show ?thesis
    using unit_runs_three_tenths frac g1 g2 g3 g4 g5 g6 by simp
qed

subsection \<open>A constant derivative\<close>

text \<open>
  Claim C6, at the input \<open>f = 1\<close>, \<open>x0 = 0\<close>, \<open>t0 = 0\<close>, \<open>tf = 1\<close>, \<open>h = 3/10\<close>. Each of
  the four methods (the implicit ones with the secant solver, which solves their affine
  residuals exactly) returns the trajectory \<open>[0, 3/10, 3/5, 9/10]\<close> on the grid
  \<open>[0, 1/3, 2/3, 1]\<close>: the state advances by \<open>h\<close> per step and the grid by
  \<open>(tf - t0) / (n - 1)\<close>, so the trajectory is off the line \<open>x0 + c * (t - t0)\<close> at the
  grid points after the first.
\<close>

theorem constant_rate_leaves_the_line_at_three_tenths:
  "map_sum id returned (adams_bashforth_2 unit_rate 0 0 1 (3 / 10))
      = Inr ([0, 1 / 3, 2 / 3, 1], [0, 3 / 10, 3 / 5, 9 / 10])
   \<and> map_sum id returned (adams_bashforth_4 unit_rate 0 0 1 (3 / 10))
      = Inr ([0, 1 / 3, 2 / 3, 1], [0, 3 / 10, 3 / 5, 9 / 10])
   \<and> map_sum id returned (adams_moulton_2 secant_solve unit_rate 0 0 1 (3 / 10))
      = Inr ([0, 1 / 3, 2 / 3, 1], [0, 3 / 10, 3 / 5, 9 / 10])
   \<and> map_sum id returned (custom_dirk_method secant_solve unit_rate 0 0 1 (3 / 10))
      = Inr ([0, 1 / 3, 2 / 3, 1], [0, 3 / 10, 3 / 5, 9 / 10])
   \<and> [0, 3 / 10, 3 / 5, 9 / 10 :: real] ! 1 \<noteq> 0 + unit_rate 0 0 * ([0, 1 / 3, 2 / 3, 1 :: real] ! 1 - 0)
   \<and> [0, 3 / 10, 3 / 5, 9 / 10 :: real] ! 3 \<noteq> 0 + unit_rate 0 0 * ([0, 1 / 3, 2 / 3, 1 :: real] ! 3 - 0)"
  by (simp add: unit_runs_three_tenths returned_def unit_rate_def)

subsection \<open>The implicit methods store what the solver returns\<close>

text \<open>Two runs with the solver that makes no progress.\<close>

lemma am2_stalled_run:
  "adams_moulton_2 stalled_solve unit_rate 0 0 2 1
     = Inr \<lparr>time_points = [0, 1, 2], solution = [0, 1, 1], f_evals = 1, solves = 1\<rparr>"
  by (simp add: adams_moulton_2_def init_run_def num_steps_unit_step linspace_def
      euler_start_def am2_step_def stalled_solve_def unit_rate_def Let_def eval_nat_numeral upt_rec)

lemma dirk_stalled_run:
  "custom_dirk_method stalled_solve unit_rate 0 0 2 1
     = Inr \<lparr>time_points = [0, 1, 2], solution = [0, 0, 0], f_evals = 0, solves = 2\<rparr>"
  by (simp add: custom_dirk_method_def init_run_def num_steps_unit_step linspace_def
      dirk_step_def stalled_solve_def unit_rate_def Let_def eval_nat_numeral upt_rec)

text \<open>
  Claim C8. Whenever the common set-up succeeds (the step size is not zero and the grid size
  is positive), \<open>adams_moulton_2\<close> and \<open>custom_dirk_method\<close> return a run, for every
  solver whatsoever: no error, and in the result nothing but the grid and the trajectory. The
  grid is the full computed grid, the trajectory has the grid's length, and each step stores
  the value that the solver returned for the residual of that step, whether or not that value
  is a root of the residual.
\<close>

theorem implicit_methods_store_solver_output:
  assumes "h \<noteq> 0" and "0 < num_steps t0 tf h"
  shows "(\<exists>r. adams_moulton_2 fsolve f x0 t0 tf h = Inr r
            \<and> time_points r = linspace t0 tf (nat (num_steps t0 tf h))
            \<and> length (solution r) = length (time_points r)
            \<and> (\<forall>i. 2 \<le> i \<and> i < length (time_points r) \<longrightarrow>
                 solution r ! i =
                   fsolve (\<lambda>x_next. x_next - (solution r ! (i - 1)
                             + h *\<^sub>R (0.5 *\<^sub>R f x_next (time_points r ! i)
                                      + 0.5 *\<^sub>R f (solution r ! (i - 1)) (time_points r ! (i - 1)))))
                          (solution r ! (i - 1))))
       \<and> (\<exists>r. custom_dirk_method fsolve f x0 t0 tf h = Inr r
            \<and> time_points r = linspace t0 tf (nat (num_steps t0 tf h))
            \<and> length (solution r) = length (time_points r)
            \<and> (\<forall>i. 1 \<le> i \<and> i < length (time_points r) \<longrightarrow>
                 solution r ! i =
                   fsolve (\<lambda>x_next. solution r ! (i - 1)
                             + h *\<^sub>R fsolve (\<lambda>k1. f (solution r ! (i - 1) + (h * ((3 - sqrt 3) / 6)) *\<^sub>R k1)
                                                    (time_points r ! (i - 1) + h * ((3 - sqrt 3) / 6)) - k1)
                                           (f (solution r ! (i - 1)) (time_points r ! (i - 1)))
                             - x_next)
                          (solution r ! (i - 1))))"
proof (rule conjI)
  obtain r where run: "adams_moulton_2 fsolve f x0 t0 tf h = Inr r"
    using methods_return(2)[OF assms] by blast
  have "time_points r = linspace t0 tf (nat (num_steps t0 tf h))"
    "length (solution r) = length (time_points r)"
    using am2_grid[OF run] by (simp_all add: linspace_length)
  then show "\<exists>r. adams_moulton_2 fsolve f x0 t0 tf h = Inr r
            \<and> time_points r = linspace t0 tf (nat (num_steps t0 tf h))
            \<and> length (solution r) = length (time_points r)
            \<and> (\<forall>i. 2 \<le> i \<and> i < length (time_points r) \<longrightarrow>
                 solution r ! i =
                   fsolve (\<lambda>x_next. x_next - (solution r ! (i - 1)
                             + h *\<^sub>R (0.5 *\<^sub>R f x_next (time_points r ! i)
                                      + 0.5 *\<^sub>R f (solution r ! (i - 1)) (time_points r ! (i - 1)))))
                          (solution r ! (i - 1)))"
    using run am2_stored[OF run] by blast
next
  obtain r where run: "custom_dirk_method fsolve f x0 t0 tf h = Inr r"
    using methods_return(4)[OF assms] by blast
  have "time_points r = linspace t0 tf (nat (num_steps t0 tf h))"
    "length (solution r) = length (time_points r)"
    using dirk_grid[OF run] by (simp_all add: linspace_length)
  then show "\<exists>r. custom_dirk_method fsolve f x0 t0 tf h = Inr r
            \<and> time_points r = linspace t0 tf (nat (num_steps t0 tf h))
            \<and> length (solution r) = length (time_points r)
            \<and> (\<forall>i. 1 \<le> i \<and> i < length (time_points r) \<longrightarrow>
                 solution r ! i =
                   fsolve (\<lambda>x_next. solution r ! (i - 1)
                             + h *\<^sub>R fsolve (\<lambda>k1. f (solution r ! (i - 1) + (h * ((3 - sqrt 3) / 6)) *\<^sub>R k1)
                                                    (time_points r ! (i - 1) + h * ((3 - sqrt 3) / 6)) - k1)
                                           (f (solution r ! (i - 1)) (time_points r ! (i - 1)))
                             - x_next)
                          (solution r ! (i - 1)))"
    using run dirk_stored[OF run] by blast
qed

theorem implicit_methods_store_solver_output_witness:
  "(1::real) \<noteq> 0 \<and> 0 < num_steps 0 2 1
   \<and> adams_moulton_2 stalled_solve unit_rate 0 0 2 1
        = Inr \<lparr>time_points = [0, 1, 2], solution = [0, 1, 1], f_evals = 1, solves = 1\<rparr>
   \<and> custom_dirk_method stalled_solve unit_rate 0 0 2 1
        = Inr \<lparr>time_points = [0, 1, 2], solution = [0, 0, 0], f_evals = 0, solves = 2\<rparr>
   \<and> [0, 1, 2 :: real] = linspace 0 2 (nat (num_steps 0 2 1))
   \<and> length [0, 1, 1 :: real] = length [0, 1, 2 :: real]
   \<and> [0, 1, 1 :: real] ! 2
        = stalled_solve (\<lambda>x_next. x_next - (1 + 1 *\<^sub>R (0.5 *\<^sub>R unit_rate x_next 2 + 0.5 *\<^sub>R unit_rate 1 1))) 1
   \<and> (1::real) - (1 + 1 *\<^sub>R (0.5 *\<^sub>R unit_rate 1 2 + 0.5 *\<^sub>R unit_rate 1 1)) \<noteq> 0"
proof -
  have h1: "(1::real) \<noteq> 0" and h2: "0 < num_steps 0 2 1"
    by (simp_all add: num_steps_unit_step)
  have ls: "linspace 0 2 (nat (num_steps 0 2 1)) = [0, 1, 2]"
    by (simp add: num_steps_unit_step linspace_def eval_nat_numeral upt_rec)
  from implicit_methods_store_solver_output[OF h1 h2, of stalled_solve unit_rate 0]
  show ?thesis
    using am2_stalled_run dirk_stalled_run h2
    by (simp add: ls unit_rate_def stalled_solve_def)
qed

subsection \<open>The corrector of adams_moulton_2\<close>

lemma am2_secant_decay_run:
  "adams_moulton_2 secant_solve decay 1 0 (3 / 2) (1 / 2)
     = Inr \<lparr>time_points = [0, 1 / 2, 1, 3 / 2], solution = [1, 1 / 2, 3 / 10, 9 / 50],
            f_evals = 1, solves = 2\<rparr>"
  by (simp add: adams_moulton_2_def init_run_def num_steps_three_halves linspace_def
      euler_start_def am2_step_def secant_solve_def decay_def Let_def eval_nat_numeral upt_rec)

lemma quadratic_corrector_has_no_root:
  "x - (1 + 1 *\<^sub>R (0.5 *\<^sub>R quadratic_rate x 2 + 0.5 *\<^sub>R quadratic_rate 1 1)) \<noteq> 0"
proof -
  have e: "x - (1 + 1 *\<^sub>R (0.5 *\<^sub>R quadratic_rate x 2 + 0.5 *\<^sub>R quadratic_rate 1 1))
      = - (((x - 1)\<^sup>2 + 4) / 2)"
    by (simp add: quadratic_rate_def power2_eq_square field_simps)
  have "0 \<le> (x - 1)\<^sup>2" by simp
  then have "0 < (x - 1)\<^sup>2 + 4" by (rule add_nonneg_pos) simp
  then have "0 < ((x - 1)\<^sup>2 + 4) / 2" by simp
  then show ?thesis unfolding e by simp
qed

text \<open>
  Claim C2, as the code has it. In \<open>adams_moulton_2\<close>, for every step index \<open>i \<ge> 2\<close>,
  the stored value \<open>solution[i]\<close> is the value that the solver returns for the corrector
  residual \<open>x_next - (x_{i-1} + h * (0.5 * f(x_next, t_i) + 0.5 * f(x_{i-1}, t_{i-1})))\<close>
  from some initial guess; it is a root of the corrector equation whenever the solver returns
  a root of that residual.
\<close>

theorem adams_moulton_2_stores_corrector_solve:
  assumes run: "adams_moulton_2 fsolve f x0 t0 tf h = Inr r"
    and i: "2 \<le> i" "i < length (time_points r)"
  shows "let residual = (\<lambda>x_next. x_next - (solution r ! (i - 1)
                     + h *\<^sub>R (0.5 *\<^sub>R f x_next (time_points r ! i)
                              + 0.5 *\<^sub>R f (solution r ! (i - 1)) (time_points r ! (i - 1)))))
         in (\<exists>guess. solution r ! i = fsolve residual guess)
          \<and> ((\<forall>y0. residual (fsolve residual y0) = 0) \<longrightarrow> residual (solution r ! i) = 0)"
proof -
  let ?R = "\<lambda>x_next. x_next - (solution r ! (i - 1)
                     + h *\<^sub>R (0.5 *\<^sub>R f x_next (time_points r ! i)
                              + 0.5 *\<^sub>R f (solution r ! (i - 1)) (time_points r ! (i - 1))))"
  have st: "solution r ! i = fsolve ?R (solution r ! (i - 1))"
    by (rule am2_stored[OF run i])
  have a: "\<exists>guess. solution r ! i = fsolve ?R guess"
    using st by (rule exI)
  have b: "(\<forall>y0. ?R (fsolve ?R y0) = 0) \<longrightarrow> ?R (solution r ! i) = 0"
  proof
    assume "\<forall>y0. ?R (fsolve ?R y0) = 0"
    then have "?R (fsolve ?R (solution r ! (i - 1))) = 0" by (rule spec)
    then show "?R (solution r ! i) = 0" unfolding st[symmetric] .
  qed
  show ?thesis unfolding Let_def using a b by (rule conjI)
qed

theorem adams_moulton_2_stores_corrector_solve_witness:
  "adams_moulton_2 secant_solve decay 1 0 (3 / 2) (1 / 2)
     = Inr \<lparr>time_points = [0, 1 / 2, 1, 3 / 2], solution = [1, 1 / 2, 3 / 10, 9 / 50],
            f_evals = 1, solves = 2\<rparr>
   \<and> (2::nat) \<le> 2 \<and> (2::nat) < length [0, 1 / 2, 1, 3 / 2 :: real]
   \<and> (3 / 10 :: real) - (1 / 2 + (1 / 2) *\<^sub>R (0.5 *\<^sub>R decay (3 / 10) 1 + 0.5 *\<^sub>R decay (1 / 2) (1 / 2))) = 0"
proof -
  let ?r = "\<lparr>time_points = [0, 1 / 2, 1, 3 / 2 :: real], solution = [1, 1 / 2, 3 / 10, 9 / 50 :: real],
            f_evals = 1, solves = 2\<rparr>"
  have i1: "(2::nat) \<le> 2" by simp
  have i2: "(2::nat) < length (time_points ?r)" by simp
  have root: "\<forall>y0. (\<lambda>x_next. x_next - (solution ?r ! (2 - 1)
                     + (1 / 2) *\<^sub>R (0.5 *\<^sub>R decay x_next (time_points ?r ! 2)
                              + 0.5 *\<^sub>R decay (solution ?r ! (2 - 1)) (time_points ?r ! (2 - 1)))))
              (secant_solve (\<lambda>x_next. x_next - (solution ?r ! (2 - 1)
                     + (1 / 2) *\<^sub>R (0.5 *\<^sub>R decay x_next (time_points ?r ! 2)
                              + 0.5 *\<^sub>R decay (solution ?r ! (2 - 1)) (time_points ?r ! (2 - 1))))) y0) = 0"
    by (simp add: secant_solve_def decay_def Let_def field_simps)
  from adams_moulton_2_stores_corrector_solve[OF am2_secant_decay_run i1 i2]
  have "(\<lambda>x_next. x_next - (solution ?r ! (2 - 1)
                     + (1 / 2) *\<^sub>R (0.5 *\<^sub>R decay x_next (time_points ?r ! 2)
                              + 0.5 *\<^sub>R decay (solution ?r ! (2 - 1)) (time_points ?r ! (2 - 1)))))
          (solution ?r ! 2) = 0"
    unfolding Let_def using root by blast
  then show ?thesis using am2_secant_decay_run by (simp add: decay_def)
qed

text \<open>
  The claim as the specification words it fails in both of its parts. With
  \<open>f(x, t) = x^2 + 1\<close>, \<open>x0 = 0\<close>, \<open>t0 = 0\<close>, \<open>tf = 2\<close> and \<open>h = 1\<close> the corrector
  residual of step 2 has no real root, so whatever a solver returns is not a solution; the
  secant solver returns \<open>-3\<close>. And the guess handed to the solver is the previous point, not
  the predictor: with \<open>f = 1\<close> the solver that returns its guess stores the previous point
  \<open>1\<close>, where the predictor is \<open>2\<close>.
\<close>

theorem adams_moulton_2_corrector_counterexample:
  "adams_moulton_2 secant_solve quadratic_rate 0 0 2 1
     = Inr \<lparr>time_points = [0, 1, 2], solution = [0, 1, - 3], f_evals = 1, solves = 1\<rparr>
   \<and> (- 3 :: real) - (1 + 1 *\<^sub>R (0.5 *\<^sub>R quadratic_rate (- 3) 2 + 0.5 *\<^sub>R quadratic_rate 1 1)) \<noteq> 0
   \<and> adams_moulton_2 stalled_solve unit_rate 0 0 2 1
     = Inr \<lparr>time_points = [0, 1, 2], solution = [0, 1, 1], f_evals = 1, solves = 1\<rparr>
   \<and> (1 :: real) \<noteq> 1 + 1 *\<^sub>R (1.5 *\<^sub>R unit_rate 1 1 - 0.5 *\<^sub>R unit_rate 0 0)"
proof -
  have "adams_moulton_2 secant_solve quadratic_rate 0 0 2 1
     = Inr \<lparr>time_points = [0, 1, 2], solution = [0, 1, - 3], f_evals = 1, solves = 1\<rparr>"
    by (simp add: adams_moulton_2_def init_run_def num_steps_unit_step linspace_def
      euler_start_def am2_step_def secant_solve_def quadratic_rate_def Let_def eval_nat_numeral upt_rec)
  then show ?thesis
    using am2_stalled_run by (simp add: quadratic_rate_def unit_rate_def)
qed

subsection \<open>The outer solve of custom_dirk_method\<close>

lemma dirk_direct_step_time_points:
  "time_points (dirk_direct_step fsolve f h i st) = time_points st"
  by (simp add: dirk_direct_step_def Let_def)

lemma dirk_step_is_direct:
  assumes exact: "\<forall>c y0. fsolve (\<lambda>x_next. c - x_next) y0 = c"
  shows "solution (dirk_step fsolve f h i st) = solution (dirk_direct_step fsolve f h i st)"
  using exact by (simp add: dirk_step_def dirk_direct_step_def Let_def)

lemma dirk_folds_agree:
  assumes exact: "\<forall>c y0. fsolve (\<lambda>x_next. c - x_next) y0 = c"
    and "time_points st = time_points st'" and "solution st = solution st'"
  shows "time_points (fold (dirk_step fsolve f h) is st)
           = time_points (fold (dirk_direct_step fsolve f h) is st')
       \<and> solution (fold (dirk_step fsolve f h) is st)
           = solution (fold (dirk_direct_step fsolve f h) is st')"
  using assms(2,3)
proof (induction "is" arbitrary: st st')
  case Nil
  then show ?case by simp
next
  case (Cons i "is")
  have t: "time_points (dirk_step fsolve f h i st) = time_points (dirk_direct_step fsolve f h i st')"
    using Cons.prems by (simp add: dirk_step_time_points dirk_direct_step_time_points)
  have "solution (dirk_step fsolve f h i st) = solution (dirk_direct_step fsolve f h i st)"
    by (rule dirk_step_is_direct[OF exact])
  also have "\<dots> = solution (dirk_direct_step fsolve f h i st')"
    using Cons.prems by (simp add: dirk_direct_step_def Let_def)
  finally have s: "solution (dirk_step fsolve f h i st) = solution (dirk_direct_step fsolve f h i st')" .
  show ?case using Cons.IH[OF t s] by simp
qed

lemma secant_solve_exact: "\<forall>c y0. secant_solve (\<lambda>x_next. c - x_next) y0 = c"
  by (simp add: secant_solve_def)

lemma dirk_unit_runs:
  "custom_dirk_method secant_solve unit_rate 0 0 2 1
     = Inr \<lparr>time_points = [0, 1, 2], solution = [0, 1, 2], f_evals = 0, solves = 2\<rparr>"
  "dirk_direct secant_solve unit_rate 0 0 2 1
     = Inr \<lparr>time_points = [0, 1, 2], solution = [0, 1, 2], f_evals = 2, solves = 2\<rparr>"
  "dirk_direct stalled_solve unit_rate 0 0 2 1
     = Inr \<lparr>time_points = [0, 1, 2], solution = [0, 1, 2], f_evals = 2, solves = 2\<rparr>"
  by (simp_all add: custom_dirk_method_def dirk_direct_def init_run_def num_steps_unit_step
      linspace_def dirk_step_def dirk_direct_step_def secant_solve_def stalled_solve_def
      unit_rate_def Let_def eval_nat_numeral upt_rec)

text \<open>
  Claim C3. In \<open>custom_dirk_method\<close> the outer residual is \<open>c - x_next\<close> with
  \<open>c = x_{i-1} + h * k1\<close>, where \<open>k1\<close> is the solver's answer to the stage equation
  \<open>f(x_{i-1} + h * gamma * k1, t_{i-1} + h * gamma) - k1 = 0\<close>, \<open>gamma = (3 - sqrt 3) / 6\<close>,
  from the guess \<open>f(x_{i-1}, t_{i-1})\<close>. For every solver that returns the root \<open>c\<close> of each
  residual \<open>c - x_next\<close>, the method returns the same grid and trajectory as the direct form
  \<open>x_i = x_{i-1} + h * k1\<close>, an error where the direct form has that error, and every stored
  point is that direct assignment.
\<close>

theorem dirk_outer_solve_is_direct_assignment:
  assumes exact: "\<forall>c y0. fsolve (\<lambda>x_next. c - x_next) y0 = c"
  shows "map_sum id returned (custom_dirk_method fsolve f x0 t0 tf h)
           = map_sum id returned (dirk_direct fsolve f x0 t0 tf h)
       \<and> (\<forall>r i. custom_dirk_method fsolve f x0 t0 tf h = Inr r \<and> 1 \<le> i \<and> i < length (time_points r) \<longrightarrow>
            solution r ! i = solution r ! (i - 1)
              + h *\<^sub>R fsolve (\<lambda>k1. f (solution r ! (i - 1) + (h * ((3 - sqrt 3) / 6)) *\<^sub>R k1)
                                     (time_points r ! (i - 1) + h * ((3 - sqrt 3) / 6)) - k1)
                            (f (solution r ! (i - 1)) (time_points r ! (i - 1))))"
proof (intro conjI allI impI)
  show "map_sum id returned (custom_dirk_method fsolve f x0 t0 tf h)
           = map_sum id returned (dirk_direct fsolve f x0 t0 tf h)"
  proof (cases "init_run x0 t0 tf h")
    case (Inl e)
    then show ?thesis by (simp add: custom_dirk_method_def dirk_direct_def)
  next
    case (Inr st)
    show ?thesis
      using dirk_folds_agree[OF exact refl refl, of f h "[1..<length (time_points st)]" st]
      by (simp add: custom_dirk_method_def dirk_direct_def Inr returned_def)
  qed
next
  fix r i
  assume a: "custom_dirk_method fsolve f x0 t0 tf h = Inr r \<and> 1 \<le> i \<and> i < length (time_points r)"
  then have run: "custom_dirk_method fsolve f x0 t0 tf h = Inr r"
    and i: "1 \<le> i" "i < length (time_points r)" by simp_all
  show "solution r ! i = solution r ! (i - 1)
              + h *\<^sub>R fsolve (\<lambda>k1. f (solution r ! (i - 1) + (h * ((3 - sqrt 3) / 6)) *\<^sub>R k1)
                                     (time_points r ! (i - 1) + h * ((3 - sqrt 3) / 6)) - k1)
                            (f (solution r ! (i - 1)) (time_points r ! (i - 1)))"
    using dirk_stored[OF run i] exact by simp
qed

theorem dirk_outer_solve_is_direct_assignment_witness:
  "(\<forall>c y0. secant_solve (\<lambda>x_next. c - x_next) y0 = c)
   \<and> map_sum id returned (custom_dirk_method secant_solve unit_rate 0 0 2 1) = Inr ([0, 1, 2], [0, 1, 2])
   \<and> map_sum id returned (dirk_direct secant_solve unit_rate 0 0 2 1) = Inr ([0, 1, 2], [0, 1, 2])
   \<and> (1::nat) \<le> 2 \<and> (2::nat) < length [0, 1, 2 :: real]
   \<and> [0, 1, 2 :: real] ! 2
        = 1 + 1 *\<^sub>R secant_solve (\<lambda>k1. unit_rate (1 + (1 * ((3 - sqrt 3) / 6)) *\<^sub>R k1)
                                             (1 + 1 * ((3 - sqrt 3) / 6)) - k1)
                                   (unit_rate 1 1)"
proof -
  note T = dirk_outer_solve_is_direct_assignment[OF secant_solve_exact, of unit_rate 0 0 2 1]
  have eq: "map_sum id returned (custom_dirk_method secant_solve unit_rate 0 0 2 1)
      = map_sum id returned (dirk_direct secant_solve unit_rate 0 0 2 1)"
    using T by (rule conjunct1)
  have pt: "custom_dirk_method secant_solve unit_rate 0 0 2 1 = Inr r \<and> 1 \<le> i \<and> i < length (time_points r) \<longrightarrow>
            solution r ! i = solution r ! (i - 1)
              + 1 *\<^sub>R secant_solve (\<lambda>k1. unit_rate (solution r ! (i - 1) + (1 * ((3 - sqrt 3) / 6)) *\<^sub>R k1)
                                     (time_points r ! (i - 1) + 1 * ((3 - sqrt 3) / 6)) - k1)
                            (unit_rate (solution r ! (i - 1)) (time_points r ! (i - 1)))" for r i
    using T by blast
  have p2: "[0, 1, 2 :: real] ! 2
        = 1 + 1 *\<^sub>R secant_solve (\<lambda>k1. unit_rate (1 + (1 * ((3 - sqrt 3) / 6)) *\<^sub>R k1)
                                             (1 + 1 * ((3 - sqrt 3) / 6)) - k1)
                                   (unit_rate 1 1)"
    using pt[of "\<lparr>time_points = [0, 1, 2], solution = [0, 1, 2], f_evals = 0, solves = 2\<rparr>" 2]
      dirk_unit_runs(1) by simp
  show ?thesis
    using secant_solve_exact eq p2 dirk_unit_runs(1,2) by (simp add: returned_def)
qed

section \<open>Properties of compute_method_statistics\<close>

text \<open>On arrays of one shape a binary operation is elementwise, with no broadcasting.\<close>

lemma np_shape_rect:
  assumes "length a = n" and "\<forall>row\<in>set a. length row = d" and "0 < n"
  shows "np_shape a = (n, d)"
proof -
  have ne: "a \<noteq> []" using assms(1,3) by auto
  then have "hd a \<in> set a" by simp
  then have "length (hd a) = d" using assms(2) by blast
  then show ?thesis using ne assms(1) by (simp add: np_shape_def)
qed

lemma np_binary_rect:
  assumes a: "length a = n" "\<forall>row\<in>set a. length row = d"
    and b: "length b = n" "\<forall>row\<in>set b. length row = d"
    and n: "0 < n"
  shows "np_binary oper a b = Inr (map (\<lambda>i. map (\<lambda>j. oper (a ! i ! j) (b ! i ! j)) [0..<d]) [0..<n])"
proof -
  have sa: "np_shape a = (n, d)" by (rule np_shape_rect[OF a n])
  have sb: "np_shape b = (n, d)" by (rule np_shape_rect[OF b n])
  have idx: "(if m = 1 then 0 else i) = i" if "i < m" for i m :: nat
    using that by auto
  have "np_binary oper a b
      = Inr (map (\<lambda>i. map (\<lambda>j. oper (a ! (if n = 1 then 0 else i) ! (if d = 1 then 0 else j))
                                    (b ! (if n = 1 then 0 else i) ! (if d = 1 then 0 else j)))
                          [0..<d]) [0..<n])"
    by (simp add: np_binary_def sa sb np_broadcast_def)
  also have "\<dots> = Inr (map (\<lambda>i. map (\<lambda>j. oper (a ! i ! j) (b ! i ! j)) [0..<d]) [0..<n])"
    by (auto simp: idx)
  finally show ?thesis .
qed

lemma fold_max_is_Max:
  fixes xs :: "real list"
  assumes "xs \<noteq> []"
  shows "fold max (tl xs) (hd xs) = Max (set xs)"
proof (cases xs)
  case Nil
  then show ?thesis using assms by simp
next
  case (Cons a list)
  show ?thesis unfolding Cons using Max.set_eq_fold[of a list] by simp
qed

lemma set_concat_grid:
  "set (concat (map (\<lambda>i. map (\<lambda>j. g i j) [0..<d]) [0..<n])) = {g i j | i j. i < n \<and> j < d}"
  by auto blast

lemma stats_example:
  "method_stats [[1, 2], [3, 5]] [[1, 0], [3, 5]]
     = Inr \<lparr>max_abs_error = 2, mean_abs_error = 1 / 2,
            max_rel_error = Some 20000000000, mean_rel_error = Some 5000000000\<rparr>"
  by (simp add: method_stats_def np_binary_def np_shape_def np_broadcast_def np_max_def
      np_max_opt_def np_mean_def np_mean_opt_def np_divide_def rel_denominators_def Let_def
      upt_rec eval_nat_numeral)

lemma stats_empty: "method_stats [] [] = Inl ValueError"
  by (simp add: method_stats_def np_binary_def np_shape_def np_broadcast_def np_max_def
      rel_denominators_def Let_def)

text \<open>
  Claim C9. For a trajectory and a reference trajectory of the same shape, \<open>n\<close> rows of
  \<open>d\<close> entries with \<open>n, d > 0\<close>: \<open>compute_method_statistics\<close> reports for the method the
  statistics of the loop body; \<open>max_abs_error\<close> is the largest elementwise absolute
  difference, attained at some entry and not below any; every denominator of the relative
  error, the absolute reference value plus \<open>1e-10\<close>, is positive, so that no relative error
  is the outcome of a division by zero.
\<close>

theorem max_abs_error_is_largest_difference:
  assumes sol: "length sol = n" "\<forall>row\<in>set sol. length row = d"
    and ref: "length ref_sol = n" "\<forall>row\<in>set ref_sol. length row = d"
    and n: "0 < n" and d: "0 < d"
  shows "\<exists>s. method_stats sol ref_sol = Inr s
          \<and> (\<forall>m t tr. m \<noteq> ''DIRK'' \<longrightarrow>
                compute_method_statistics [(m, (t, sol)), (''DIRK'', (tr, ref_sol))] = Inr [(m, s)])
          \<and> (\<exists>i<n. \<exists>j<d. max_abs_error s = \<bar>sol ! i ! j - ref_sol ! i ! j\<bar>)
          \<and> (\<forall>i<n. \<forall>j<d. \<bar>sol ! i ! j - ref_sol ! i ! j\<bar> \<le> max_abs_error s)
          \<and> (\<forall>row\<in>set (rel_denominators ref_sol). \<forall>x\<in>set row. 0 < x)
          \<and> max_rel_error s \<noteq> None \<and> mean_rel_error s \<noteq> None"
proof -
  let ?e = "\<lambda>i j. \<bar>sol ! i ! j - ref_sol ! i ! j\<bar>"
  let ?abs = "map (\<lambda>i. map (\<lambda>j. ?e i j) [0..<d]) [0..<n]"
  let ?den = "rel_denominators ref_sol"
  let ?rel = "map (\<lambda>i. map (\<lambda>j. np_divide (?abs ! i ! j) (?den ! i ! j)) [0..<d]) [0..<n]"
  have diff: "np_binary (-) sol ref_sol
      = Inr (map (\<lambda>i. map (\<lambda>j. sol ! i ! j - ref_sol ! i ! j) [0..<d]) [0..<n])"
    by (rule np_binary_rect[OF sol ref n])
  have abs: "map (map abs) (map (\<lambda>i. map (\<lambda>j. sol ! i ! j - ref_sol ! i ! j) [0..<d]) [0..<n]) = ?abs"
    by (simp add: comp_def)
  have abs_shape: "length ?abs = n" "\<forall>row\<in>set ?abs. length row = d" by auto
  have den_shape: "length ?den = n" "\<forall>row\<in>set ?den. length row = d"
    using ref by (auto simp: rel_denominators_def)
  have rel: "np_binary np_divide ?abs ?den = Inr ?rel"
    by (rule np_binary_rect[OF abs_shape den_shape n])
  have den_pos: "\<forall>row\<in>set ?den. \<forall>x\<in>set row. 0 < x"
  proof (intro ballI)
    fix row x assume "row \<in> set ?den" "x \<in> set row"
    then obtain y where "x = \<bar>y\<bar> + 1 / 10 ^ 10" by (auto simp: rel_denominators_def)
    moreover have "(0::real) < 1 / 10 ^ 10" by simp
    ultimately show "0 < x" by linarith
  qed
  have den_nth: "0 < ?den ! i ! j" if "i < n" "j < d" for i j
  proof -
    have r: "?den ! i \<in> set ?den" using that den_shape by simp
    then have "length (?den ! i) = d" using den_shape by blast
    then have "?den ! i ! j \<in> set (?den ! i)" using that by simp
    then show ?thesis using den_pos r by blast
  qed
  have rel_some: "None \<notin> set (concat ?rel)"
  proof
    assume "None \<in> set (concat ?rel)"
    then obtain i j where ij: "i < n" "j < d" and "np_divide (?abs ! i ! j) (?den ! i ! j) = None"
      by auto
    then have "?den ! i ! j = 0" by (simp add: np_divide_def split: if_splits)
    then show False using den_nth[OF ij] by simp
  qed
  have abs_ne: "concat ?abs \<noteq> []" using n d by auto
  have rel_ne: "concat ?rel \<noteq> []" using n d by auto
  define mx where "mx = Max (set (concat ?abs))"
  have np_mx: "np_max ?abs = Inr mx"
    using abs_ne unfolding mx_def by (simp add: np_max_def Let_def fold_max_is_Max)
  obtain mxr where mxr: "np_max_opt ?rel = Inr (Some mxr)"
    using rel_ne rel_some by (simp add: np_max_opt_def Let_def)
  obtain mnr where mnr: "np_mean_opt ?rel = Some mnr"
    using rel_some by (simp add: np_mean_opt_def Let_def)
  define s where "s = \<lparr>max_abs_error = mx, mean_abs_error = np_mean ?abs,
                         max_rel_error = Some mxr, mean_rel_error = Some mnr\<rparr>"
  have ms: "method_stats sol ref_sol = Inr s"
    unfolding method_stats_def diff
    by (simp only: sum.case Let_def abs rel np_mx mxr mnr s_def)
  have set_abs: "set (concat ?abs) = {?e i j | i j. i < n \<and> j < d}"
    by (rule set_concat_grid)
  have fin: "finite (set (concat ?abs))" by simp
  have "mx \<in> set (concat ?abs)"
    unfolding mx_def using abs_ne by (intro Max_in) simp_all
  then have attained: "\<exists>i<n. \<exists>j<d. max_abs_error s = ?e i j"
    unfolding set_abs s_def by auto
  have bound: "\<forall>i<n. \<forall>j<d. ?e i j \<le> max_abs_error s"
  proof (intro allI impI)
    fix i j assume "i < n" "j < d"
    then have "?e i j \<in> set (concat ?abs)" unfolding set_abs by blast
    then have "?e i j \<le> mx" unfolding mx_def by (intro Max_ge) simp_all
    then show "?e i j \<le> max_abs_error s" by (simp add: s_def)
  qed
  have cms: "\<forall>m t tr. m \<noteq> ''DIRK'' \<longrightarrow>
                compute_method_statistics [(m, (t, sol)), (''DIRK'', (tr, ref_sol))] = Inr [(m, s)]"
    by (simp add: compute_method_statistics_def ms)
  have "max_rel_error s \<noteq> None" "mean_rel_error s \<noteq> None" by (simp_all add: s_def)
  then show ?thesis using ms cms attained bound den_pos by blast
qed

theorem max_abs_error_is_largest_difference_witness:
  "length [[1, 2], [3, 5 :: real]] = 2 \<and> map length [[1, 2], [3, 5 :: real]] = [2, 2]
   \<and> length [[1, 0], [3, 5 :: real]] = 2 \<and> map length [[1, 0], [3, 5 :: real]] = [2, 2]
   \<and> (0::nat) < 2
   \<and> method_stats [[1, 2], [3, 5]] [[1, 0], [3, 5]]
        = Inr \<lparr>max_abs_error = 2, mean_abs_error = 1 / 2,
               max_rel_error = Some 20000000000, mean_rel_error = Some 5000000000\<rparr>
   \<and> compute_method_statistics
        [(''AB2'', ([0, 1], [[1, 2], [3, 5]])), (''DIRK'', ([0, 1], [[1, 0], [3, 5]]))]
        = Inr [(''AB2'', \<lparr>max_abs_error = 2, mean_abs_error = 1 / 2,
                           max_rel_error = Some 20000000000, mean_rel_error = Some 5000000000\<rparr>)]
   \<and> (2::real) = \<bar>[[1, 2], [3, 5 :: real]] ! 0 ! 1 - [[1, 0], [3, 5 :: real]] ! 0 ! 1\<bar>
   \<and> \<bar>[[1, 2], [3, 5 :: real]] ! 1 ! 0 - [[1, 0], [3, 5 :: real]] ! 1 ! 0\<bar> \<le> (2::real)
   \<and> rel_denominators [[1, 0], [3, 5]]
        = [[1 + 1 / 10 ^ 10, 1 / 10 ^ 10], [3 + 1 / 10 ^ 10, 5 + 1 / 10 ^ 10]]"
proof -
  have h1: "length [[1, 2], [3, 5 :: real]] = 2"
    and h2: "\<forall>row\<in>set [[1, 2], [3, 5 :: real]]. length row = 2"
    and h3: "length [[1, 0], [3, 5 :: real]] = 2"
    and h4: "\<forall>row\<in>set [[1, 0], [3, 5 :: real]]. length row = 2"
    and h5: "(0::nat) < 2" by simp_all
  from max_abs_error_is_largest_difference[OF h1 h2 h3 h4 h5 h5]
  obtain s where s: "method_stats [[1, 2], [3, 5]] [[1, 0], [3, 5]] = Inr s"
    and c: "\<forall>m t tr. m \<noteq> ''DIRK'' \<longrightarrow>
                compute_method_statistics [(m, (t, [[1, 2], [3, 5]])), (''DIRK'', (tr, [[1, 0], [3, 5]]))]
                  = Inr [(m, s)]"
    and b: "\<forall>i<2. \<forall>j<2. \<bar>[[1, 2], [3, 5 :: real]] ! i ! j - [[1, 0], [3, 5 :: real]] ! i ! j\<bar>
                \<le> max_abs_error s"
    by blast
  have s_eq: "s = \<lparr>max_abs_error = 2, mean_abs_error = 1 / 2,
               max_rel_error = Some 20000000000, mean_rel_error = Some 5000000000\<rparr>"
    using s stats_example by simp
  have c1: "compute_method_statistics
        [(''AB2'', ([0, 1], [[1, 2], [3, 5]])), (''DIRK'', ([0, 1], [[1, 0], [3, 5]]))]
        = Inr [(''AB2'', s)]"
    using c by simp
  have b1: "\<bar>[[1, 2], [3, 5 :: real]] ! 1 ! 0 - [[1, 0], [3, 5 :: real]] ! 1 ! 0\<bar> \<le> max_abs_error s"
  proof -
    have "(1::nat) < 2" "(0::nat) < 2" by simp_all
    then show ?thesis using b by blast
  qed
  show ?thesis
    using stats_example c1 b1 unfolding s_eq by (simp add: rel_denominators_def)
qed

end
